theory Spec2Isabelle
  imports Complex_Main "HOL-Library.Char_ord" "HOL-Library.List_Lexorder"
begin

section \<open>Retry controller (packages/opencode/src/session/retry.ts)\<close>

text \<open>
  JavaScript numbers are modelled as exact reals: no rounding, no overflow to
  Infinity, and no header value that parses to Infinity. \<open>NaN\<close> is \<open>None\<close>. The
  built-ins the module calls are fields of a runtime record, so that every theorem holds
  for whatever finite values they return:
  \<^item> \<open>parseFloat\<close>: \<open>Number.parseFloat\<close>, \<open>None\<close> where it returns NaN;
  \<^item> \<open>Date_parse\<close>: \<open>Date.parse\<close>, an integral time value in milliseconds or NaN;
  \<^item> \<open>Date_now\<close>: \<open>Date.now()\<close>, read as one value during a call.
\<close>

record js_runtime =
  parseFloat :: "string \<Rightarrow> real option"
  Date_parse :: "string \<Rightarrow> int option"
  Date_now :: int

text \<open>\<open>MessageV2.APIError\<close>, reduced to the field the module reads:
  \<open>error.data.responseHeaders\<close>, an optional string-to-string dictionary.\<close>

record APIError =
  responseHeaders :: "(string \<rightharpoonup> string) option"

definition RETRY_INITIAL_DELAY :: real where
  "RETRY_INITIAL_DELAY = 2000"

definition RETRY_BACKOFF_FACTOR :: real where
  "RETRY_BACKOFF_FACTOR = 2"

definition RETRY_MAX_DELAY_NO_HEADERS :: real where
  "RETRY_MAX_DELAY_NO_HEADERS = 30000"

text \<open>\<open>RETRY_INITIAL_DELAY * Math.pow(RETRY_BACKOFF_FACTOR, attempt - 1)\<close>, the
  expression that occurs three times in the module.\<close>

definition exponential :: "int \<Rightarrow> real" where
  "exponential attempt = RETRY_INITIAL_DELAY * RETRY_BACKOFF_FACTOR powi (attempt - 1)"

text \<open>A header value passes \<open>if (value)\<close> when it is present and not the empty
  string; only then is it parsed.\<close>

definition delay :: "js_runtime \<Rightarrow> APIError \<Rightarrow> int \<Rightarrow> real" where
  "delay rt err attempt =
     (case responseHeaders err of
        Some headers \<Rightarrow>
          (case (case headers ''retry-after-ms'' of
                   Some retryAfterMs \<Rightarrow>
                     if retryAfterMs \<noteq> [] then parseFloat rt retryAfterMs else None
                 | None \<Rightarrow> None) of
             Some parsedMs \<Rightarrow> parsedMs
           | None \<Rightarrow>
               (case (case headers ''retry-after'' of
                        Some retryAfter \<Rightarrow>
                          if retryAfter \<noteq> [] then
                            (case parseFloat rt retryAfter of
                               Some parsedSeconds \<Rightarrow>
                                 Some (real_of_int \<lceil>parsedSeconds * 1000\<rceil>)
                             | None \<Rightarrow>
                                 (case Date_parse rt retryAfter of
                                    Some d \<Rightarrow>
                                      (let parsed = real_of_int d - real_of_int (Date_now rt)
                                       in if parsed > 0 then Some (real_of_int \<lceil>parsed\<rceil>)
                                          else None)
                                  | None \<Rightarrow> None))
                          else None
                      | None \<Rightarrow> None) of
                  Some hinted \<Rightarrow> hinted
                | None \<Rightarrow> exponential attempt))
      | None \<Rightarrow> min (exponential attempt) RETRY_MAX_DELAY_NO_HEADERS)"

definition TEN_MINUTES :: real where
  "TEN_MINUTES = 600000"

definition getRetryDelayInMs :: "js_runtime \<Rightarrow> APIError \<Rightarrow> int \<Rightarrow> real option" where
  "getRetryDelayInMs rt err attempt =
     (case responseHeaders err of
        Some headers \<Rightarrow>
          (let baseDelay = delay rt err attempt
           in if baseDelay > TEN_MINUTES then None else Some baseDelay)
      | None \<Rightarrow>
          (if exponential attempt > TEN_MINUTES then None
           else Some (exponential attempt)))"

text \<open>The delay that \<open>getRetryDelayInMs\<close> compares with the ten-minute limit: the
  result of \<open>delay\<close> when the error has headers, the exponential without the
  30-second cap when it has none.\<close>

definition unbounded_delay :: "js_runtime \<Rightarrow> APIError \<Rightarrow> int \<Rightarrow> real" where
  "unbounded_delay rt err attempt =
     (case responseHeaders err of
        Some headers \<Rightarrow> delay rt err attempt
      | None \<Rightarrow> exponential attempt)"

subsection \<open>The delay algorithm and the bounded variant as the specification words them\<close>

text \<open>Section 4.4, steps 1 to 5: the first usable hint wins, in the order
  \<open>retry-after-ms\<close>, \<open>retry-after\<close> as a number, \<open>retry-after\<close> as a date.\<close>

definition spec_delay :: "js_runtime \<Rightarrow> APIError \<Rightarrow> int \<Rightarrow> real" where
  "spec_delay rt err attempt =
     (case responseHeaders err of
        None \<Rightarrow> min (2000 * 2 powi (attempt - 1)) 30000
      | Some h \<Rightarrow>
          (case Option.bind (h ''retry-after-ms'') (parseFloat rt) of
             Some n \<Rightarrow> n
           | None \<Rightarrow>
               (case Option.bind (h ''retry-after'') (parseFloat rt) of
                  Some n \<Rightarrow> real_of_int \<lceil>n * 1000\<rceil>
                | None \<Rightarrow>
                    (case Option.bind (h ''retry-after'') (Date_parse rt) of
                       Some d \<Rightarrow>
                         if d - Date_now rt > 0
                         then real_of_int \<lceil>real_of_int (d - Date_now rt)\<rceil>
                         else 2000 * 2 powi (attempt - 1)
                     | None \<Rightarrow> 2000 * 2 powi (attempt - 1)))))"

record bounded_args =
  error :: APIError
  attempt :: int
  startTime :: real
  maxDuration :: "real option"

definition getBoundedDelay :: "js_runtime \<Rightarrow> bounded_args \<Rightarrow> real option" where
  "getBoundedDelay rt args =
     (let RETRY_TIMEOUT = (case maxDuration args of Some m \<Rightarrow> m | None \<Rightarrow> 600000);
          elapsedTime = real_of_int (Date_now rt) - startTime args;
          remainingTime = RETRY_TIMEOUT - elapsedTime
      in if remainingTime \<le> 0 then None
         else (case getRetryDelayInMs rt (error args) (attempt args) of
                 None \<Rightarrow> None
               | Some retryDelay \<Rightarrow>
                   (let boundedDelay = min retryDelay remainingTime
                    in if boundedDelay > 0 then Some boundedDelay else None)))"

text \<open>The bounded variant of section 4.4: give up when the elapsed time has reached
  \<open>maxDuration\<close>, when the delay of \<open>spec_delay\<close> exceeds \<open>maxDuration\<close>, or when the
  capped delay is not positive; otherwise the delay capped to the remaining time.\<close>

definition spec_getBoundedDelay :: "js_runtime \<Rightarrow> bounded_args \<Rightarrow> real option" where
  "spec_getBoundedDelay rt args =
     (let limit = (case maxDuration args of Some m \<Rightarrow> m | None \<Rightarrow> 600000);
          elapsed = real_of_int (Date_now rt) - startTime args;
          d = spec_delay rt (error args) (attempt args);
          capped = min d (limit - elapsed)
      in if elapsed \<ge> limit \<or> d > limit \<or> capped \<le> 0 then None else Some capped)"

subsection \<open>A concrete runtime for evaluation\<close>

text \<open>A stand-in for \<open>Number.parseFloat\<close> on the strings used below: a non-empty
  string of decimal digits is its value, everything else is NaN.\<close>

definition digit_value :: "char \<Rightarrow> nat option" where
  "digit_value c =
     (let n = of_char c :: nat in if 48 \<le> n \<and> n \<le> 57 then Some (n - 48) else None)"

fun digits_value :: "nat \<Rightarrow> string \<Rightarrow> nat option" where
  "digits_value acc [] = Some acc"
| "digits_value acc (c # cs) =
     (case digit_value c of
        None \<Rightarrow> None
      | Some d \<Rightarrow> digits_value (10 * acc + d) cs)"

definition parse_digits :: "string \<Rightarrow> real option" where
  "parse_digits s = (if s = [] then None else map_option real (digits_value 0 s))"

definition no_date :: "string \<Rightarrow> int option" where
  "no_date s = None"

definition sample_runtime :: js_runtime where
  "sample_runtime =
     \<lparr>parseFloat = parse_digits, Date_parse = no_date, Date_now = 1700000000000\<rparr>"

definition no_headers :: APIError where
  "no_headers = \<lparr>responseHeaders = None\<rparr>"

definition both_hints :: APIError where
  "both_hints =
     \<lparr>responseHeaders =
        Some (map_of [(''retry-after-ms'', ''750''), (''retry-after'', ''2'')])\<rparr>"

section \<open>JavaScript and SQLite helpers used by the storage backends\<close>

text \<open>\<open>array[i]\<close>: the element, or \<open>undefined\<close> (\<open>None\<close>) past the end.\<close>

definition js_index :: "'a list \<Rightarrow> nat \<Rightarrow> 'a option" where
  "js_index xs i = (if i < length xs then Some (xs ! i) else None)"

text \<open>A template literal \<open>`${x}`\<close> over a string that may be \<open>undefined\<close>.\<close>

definition template :: "string option \<Rightarrow> string" where
  "template x = (case x of Some s \<Rightarrow> s | None \<Rightarrow> ''undefined'')"

text \<open>\<open>!x\<close> for a string that may be \<open>undefined\<close>: true for \<open>undefined\<close> and for
  the empty string.\<close>

definition falsy :: "string option \<Rightarrow> bool" where
  "falsy x = (case x of None \<Rightarrow> True | Some s \<Rightarrow> s = [])"

text \<open>\<open>key.join("/")\<close> and \<open>str.split("/")\<close>.\<close>

fun join_slash :: "string list \<Rightarrow> string" where
  "join_slash [] = []"
| "join_slash [x] = x"
| "join_slash (x # y # ys) = x @ CHR ''/'' # join_slash (y # ys)"

fun split_slash :: "string \<Rightarrow> string list" where
  "split_slash [] = [[]]"
| "split_slash (c # cs) =
     (if c = CHR ''/'' then [] # split_slash cs
      else (case split_slash cs of
              [] \<Rightarrow> [[c]]
            | w # ws \<Rightarrow> (c # w) # ws))"

text \<open>
  \<open>path.join\<close> of Node (POSIX flavour), after its documentation: the non-empty
  arguments are joined with \<open>/\<close> and the result is normalised. Normalising drops empty
  and \<open>.\<close> components and lets \<open>..\<close> remove the component before it; above the start
  of a relative path \<open>..\<close> is kept, above the root it is dropped.
\<close>

definition normalize_step :: "bool \<Rightarrow> string list \<Rightarrow> string \<Rightarrow> string list" where
  "normalize_step allowAboveRoot stack c =
     (if c = [] \<or> c = ''.'' then stack
      else if c = ''..'' then
        (case stack of
           [] \<Rightarrow> if allowAboveRoot then [''..''] else []
         | t # ts \<Rightarrow>
             if t = ''..'' then (if allowAboveRoot then ''..'' # stack else stack)
             else ts)
      else c # stack)"

definition normalizeString :: "bool \<Rightarrow> string \<Rightarrow> string" where
  "normalizeString allowAboveRoot path =
     join_slash (rev (foldl (normalize_step allowAboveRoot) [] (split_slash path)))"

definition path_normalize :: "string \<Rightarrow> string" where
  "path_normalize path =
     (if path = [] then ''.''
      else
        (let isAbsolute = (hd path = CHR ''/'');
             trailingSeparator = (last path = CHR ''/'');
             p = normalizeString (\<not> isAbsolute) path
         in if p = [] then (if isAbsolute then ''/'' else if trailingSeparator then ''./'' else ''.'')
            else (if isAbsolute then ''/'' else []) @ p
                 @ (if trailingSeparator then ''/'' else [])))"

definition path_join :: "string list \<Rightarrow> string" where
  "path_join args =
     (let joined = filter (\<lambda>arg. arg \<noteq> []) args
      in if joined = [] then ''.'' else path_normalize (join_slash joined))"

text \<open>
  The \<open>LIKE\<close> operator of SQLite with its defaults: \<open>%\<close> matches any run of
  characters, \<open>_\<close> any one character, and ASCII letters match whatever their case.
  The pattern is the first argument.
\<close>

definition ascii_lower :: "char \<Rightarrow> char" where
  "ascii_lower c =
     (let n = of_char c :: nat in if 65 \<le> n \<and> n \<le> 90 then char_of (n + 32) else c)"

fun sql_like :: "string \<Rightarrow> string \<Rightarrow> bool" where
  "sql_like [] s = (s = [])"
| "sql_like (p # ps) [] = (p = CHR ''%'' \<and> sql_like ps [])"
| "sql_like (p # ps) (c # cs) =
     (if p = CHR ''%'' then sql_like ps (c # cs) \<or> sql_like (p # ps) cs
      else (p = CHR ''_'' \<or> ascii_lower p = ascii_lower c) \<and> sql_like ps cs)"

section \<open>Directories\<close>

text \<open>
  A file can be created only in a directory that exists. \<open>ancestors\<close> lists the
  directories above a path, outermost first (the root as \<open>/\<close>), and \<open>dirname\<close> is the
  innermost of them, the working directory \<open>.\<close> for a path without \<open>/\<close>. Both are
  applied to paths that \<open>path.join\<close> has normalised.
\<close>

fun slash_prefixes :: "string \<Rightarrow> string list" where
  "slash_prefixes [] = []"
| "slash_prefixes (c # cs) =
     (if c = CHR ''/'' then [[]] else []) @ map ((#) c) (slash_prefixes cs)"

definition ancestors :: "string \<Rightarrow> string list" where
  "ancestors path = map (\<lambda>p. if p = [] then ''/'' else p) (slash_prefixes path)"

definition dirname :: "string \<Rightarrow> string" where
  "dirname path = (case ancestors path of [] \<Rightarrow> ''.'' | a # as \<Rightarrow> last (a # as))"

section \<open>MultiSqliteBackend (storage/multi-sqlite-backend.ts, src/unnamed/part_002)\<close>

text \<open>
  The errors the backend throws: the \<open>NotFoundError\<close> made by \<open>NamedError.create\<close>, a
  plain \<open>Error\<close> with its message, and an error of the SQLite driver with its message.
  Only the first is a named (tagged) error; \<open>error_name\<close> is its name, the \<open>name\<close> that
  \<open>NamedError.create\<close> is called with.
\<close>

datatype storage_error =
    NotFoundError string
  | Error string
  | SQLiteError string

definition error_name :: "storage_error \<Rightarrow> string option" where
  "error_name e = (case e of NotFoundError m \<Rightarrow> Some ''NotFoundError'' | _ \<Rightarrow> None)"

text \<open>
  Rows of the two tables. \<open>data\<close> holds the stored value itself: the column is
  \<open>JSON.stringify\<close> of it and reads return \<open>JSON.parse\<close> of the column, which for a
  JSON-serialisable value is structurally the value. \<open>session_id\<close> is \<open>TEXT PRIMARY KEY\<close>
  without \<open>NOT NULL\<close>, so it can hold \<open>NULL\<close> (\<open>None\<close>); the driver binds \<open>undefined\<close>
  as \<open>NULL\<close>. A table is the list of its rows in insertion order.
\<close>

record 'v session_row =
  session_id :: "string option"
  project_id :: string
  session_data :: 'v
  session_created_at :: int
  session_updated_at :: int

record 'v storage_row =
  row_key :: string
  row_type :: string
  row_data :: 'v
  row_created_at :: int
  row_updated_at :: int

text \<open>
  The backend object of one process together with the directory tree it works on.
  \<open>dirs\<close> holds the paths of the existing directories. \<open>files\<close> maps the path of each
  existing database file (\<open>sessions.db\<close> and the session databases) to the database it
  holds, \<open>disk\<close> maps a database to its \<open>storage\<close> table, and \<open>next_db\<close> is the next
  unused database; an open handle (\<open>sessionDBs\<close>) refers to its database, not to the path,
  so it stays usable after the path is unlinked. \<open>sessionsMetaDB\<close> is the \<open>sessions\<close> table
  behind the handle of \<open>sessions.db\<close>. Both in-memory maps can hold \<open>undefined\<close> as a key,
  and \<open>messageSessionCache\<close> as a value.

  \<open>refused\<close> is the platform's part: the paths at which it lets no file be created,
  whatever the tree holds (a name or a path longer than the file system allows, a
  character it does not take). The tree is that of a POSIX file system with
  case-sensitive names, without links, and written by this backend only: regular files
  other than databases are not part of it.
\<close>

record 'v backend =
  baseDir :: string
  dirs :: "string set"
  sessionsMetaDB :: "'v session_row list"
  files :: "string \<rightharpoonup> nat"
  disk :: "nat \<Rightarrow> 'v storage_row list"
  next_db :: nat
  sessionDBs :: "string option \<rightharpoonup> nat"
  messageSessionCache :: "string option \<rightharpoonup> string option"
  refused :: "string \<Rightarrow> bool"

definition sessionsDir :: "'v backend \<Rightarrow> string" where
  "sessionsDir b = path_join [baseDir b, ''sessions'']"

text \<open>The constructor on a project directory that has no \<open>.opencode\<close> yet, on a
  platform that refuses the paths \<open>platform\<close> and accepts those below the project
  directory that the constructor makes: \<open>ensureDirectories\<close> makes \<open>.opencode\<close> and
  \<open>.opencode/sessions\<close> with every directory above them, and \<open>initSessionsMetaDB\<close>
  creates \<open>sessions.db\<close>.\<close>

definition new_backend :: "(string \<Rightarrow> bool) \<Rightarrow> string \<Rightarrow> 'v backend" where
  "new_backend platform projectDir =
     (let base = path_join [projectDir, ''.opencode''];
          sessions = path_join [base, ''sessions'']
      in \<lparr>baseDir = base,
          dirs = {''.'', ''/''} \<union> set (ancestors sessions) \<union> {sessions},
          sessionsMetaDB = [],
          files = [path_join [base, ''sessions.db''] \<mapsto> 0],
          disk = (\<lambda>db. []), next_db = 1,
          sessionDBs = Map.empty, messageSessionCache = Map.empty,
          refused = platform\<rparr>)"

definition dbPath :: "'v backend \<Rightarrow> string option \<Rightarrow> string" where
  "dbPath b sessionID = path_join [baseDir b, ''sessions'', template sessionID @ ''.db'']"

text \<open>
  \<open>getSessionDB\<close>: the cached handle, or the file opened with \<open>create: true\<close>. A file
  that does not exist is created with an empty \<open>storage\<close> table, which needs its
  directory to exist, its path not to be a directory and the platform not to refuse the
  path; otherwise \<open>new Database\<close> throws (\<open>SQLITE_CANTOPEN\<close>), nothing is created and
  nothing is cached.
\<close>

definition creatable :: "'v backend \<Rightarrow> string \<Rightarrow> bool" where
  "creatable b path = (dirname path \<in> dirs b \<and> path \<notin> dirs b \<and> \<not> refused b path)"

definition getSessionDB ::
  "string option \<Rightarrow> 'v backend \<Rightarrow> storage_error + nat \<times> 'v backend" where
  "getSessionDB sessionID b =
     (case sessionDBs b sessionID of
        Some db \<Rightarrow> Inr (db, b)
      | None \<Rightarrow>
          (case files b (dbPath b sessionID) of
             Some db \<Rightarrow> Inr (db, b\<lparr>sessionDBs := (sessionDBs b)(sessionID \<mapsto> db)\<rparr>)
           | None \<Rightarrow>
               if creatable b (dbPath b sessionID)
               then
                 (let db = next_db b
                  in Inr (db, b\<lparr>files := (files b)(dbPath b sessionID \<mapsto> db),
                                  disk := (disk b)(db := []),
                                  next_db := Suc db,
                                  sessionDBs := (sessionDBs b)(sessionID \<mapsto> db)\<rparr>))
               else Inl (SQLiteError ''unable to open database file'')))"

record parsed_key =
  key_type :: "string option"
  key_sessionID :: "string option"
  key_id :: "string option"

definition parseKey :: "'v backend \<Rightarrow> string list \<Rightarrow> parsed_key" where
  "parseKey b key =
     (let type = js_index key 0; rest = drop 1 key
      in if type = Some ''session'' then
           \<lparr>key_type = Some ''session'', key_sessionID = js_index rest 1, key_id = None\<rparr>
         else if type = Some ''message'' then
           \<lparr>key_type = Some ''message'', key_sessionID = js_index rest 0,
            key_id = js_index rest 1\<rparr>
         else if type = Some ''part'' then
           (let messageID = js_index rest 0;
                partID = js_index rest 1;
                sessionID = (case messageSessionCache b messageID of
                               Some s \<Rightarrow> s
                             | None \<Rightarrow> None)
            in \<lparr>key_type = Some ''part'', key_sessionID = sessionID, key_id = partID\<rparr>)
         else if type = Some ''session_diff'' then
           \<lparr>key_type = Some ''session_diff'', key_sessionID = js_index rest 0, key_id = None\<rparr>
         else \<lparr>key_type = type, key_sessionID = None, key_id = None\<rparr>)"

text \<open>\<open>SELECT data FROM sessions WHERE session_id = ?\<close>: \<open>NULL\<close> equals nothing.\<close>

definition select_session :: "string option \<Rightarrow> 'v session_row list \<Rightarrow> 'v session_row option" where
  "select_session sid rows = find (\<lambda>r. sid \<noteq> None \<and> session_id r = sid) rows"

text \<open>\<open>SELECT data FROM storage WHERE key = ?\<close>.\<close>

definition select_storage :: "string \<Rightarrow> 'v storage_row list \<Rightarrow> 'v storage_row option" where
  "select_storage k rows = find (\<lambda>r. row_key r = k) rows"

text \<open>\<open>INSERT ... ON CONFLICT(session_id) DO UPDATE SET data, updated_at\<close>: the row with
  that \<open>session_id\<close> keeps its place, its \<open>project_id\<close> and its \<open>created_at\<close>; a \<open>NULL\<close>
  \<open>session_id\<close> conflicts with nothing.\<close>

fun upsert_session ::
  "int \<Rightarrow> string option \<Rightarrow> string \<Rightarrow> 'v \<Rightarrow> 'v session_row list \<Rightarrow> 'v session_row list" where
  "upsert_session now sid pid d [] =
     [\<lparr>session_id = sid, project_id = pid, session_data = d,
       session_created_at = now, session_updated_at = now\<rparr>]"
| "upsert_session now sid pid d (r # rs) =
     (if sid \<noteq> None \<and> session_id r = sid
      then r\<lparr>session_data := d, session_updated_at := now\<rparr> # rs
      else r # upsert_session now sid pid d rs)"

text \<open>\<open>INSERT ... ON CONFLICT(key) DO UPDATE SET data, updated_at\<close>.\<close>

fun upsert_storage ::
  "int \<Rightarrow> string \<Rightarrow> string \<Rightarrow> 'v \<Rightarrow> 'v storage_row list \<Rightarrow> 'v storage_row list" where
  "upsert_storage now k t d [] =
     [\<lparr>row_key = k, row_type = t, row_data = d,
       row_created_at = now, row_updated_at = now\<rparr>]"
| "upsert_storage now k t d (r # rs) =
     (if row_key r = k
      then r\<lparr>row_data := d, row_updated_at := now\<rparr> # rs
      else r # upsert_storage now k t d rs)"

text \<open>
  The five operations (\<open>write\<close> is a keyword of Isabelle, hence \<open>write'\<close>). Each
  returns its result, or the error it throws, with the backend after it; \<open>now\<close> is the
  value of \<open>unixepoch()\<close> at the call. An error of \<open>getSessionDB\<close> passes through; a
  message \<open>write\<close> has then already recorded the message in \<open>messageSessionCache\<close>.
\<close>

definition read :: "string list \<Rightarrow> 'v backend \<Rightarrow> (storage_error + 'v) \<times> 'v backend" where
  "read key b =
     (let keyStr = join_slash key; parsed = parseKey b key
      in if key_type parsed = Some ''session'' then
           (case select_session (key_sessionID parsed) (sessionsMetaDB b) of
              None \<Rightarrow> (Inl (NotFoundError (''Resource not found: '' @ keyStr)), b)
            | Some row \<Rightarrow> (Inr (session_data row), b))
         else if key_type parsed = Some ''message'' \<or> key_type parsed = Some ''part'' then
           (if falsy (key_sessionID parsed) then
              (Inl (Error (''Cannot read '' @ template (key_type parsed) @ '': session unknown'')), b)
            else
              (case getSessionDB (key_sessionID parsed) b of
                 Inl e \<Rightarrow> (Inl e, b)
               | Inr (db, b') \<Rightarrow>
                   (case select_storage keyStr (disk b' db) of
                      None \<Rightarrow> (Inl (NotFoundError (''Resource not found: '' @ keyStr)), b')
                    | Some row \<Rightarrow> (Inr (row_data row), b'))))
         else (Inl (Error (''Unknown key type: '' @ template (key_type parsed))), b))"

definition write' ::
  "int \<Rightarrow> string list \<Rightarrow> 'v \<Rightarrow> 'v backend \<Rightarrow> (storage_error + unit) \<times> 'v backend" where
  "write' now key content b =
     (let keyStr = join_slash key; parsed = parseKey b key
      in if key_type parsed = Some ''session'' then
           (let projectID = js_index key 1; sessionID = js_index key 2
            in case projectID of
                 None \<Rightarrow>
                   (Inl (SQLiteError ''NOT NULL constraint failed: sessions.project_id''), b)
               | Some pid \<Rightarrow>
                   (Inr (),
                    b\<lparr>sessionsMetaDB :=
                        upsert_session now sessionID pid content (sessionsMetaDB b)\<rparr>))
         else if key_type parsed = Some ''message'' then
           (let sessionID = key_sessionID parsed;
                messageID = key_id parsed;
                b1 = b\<lparr>messageSessionCache :=
                         (messageSessionCache b)(messageID \<mapsto> sessionID)\<rparr>
            in case getSessionDB sessionID b1 of
                 Inl e \<Rightarrow> (Inl e, b1)
               | Inr (db, b2) \<Rightarrow>
                   (Inr (),
                    b2\<lparr>disk := (disk b2)(db := upsert_storage now keyStr ''message'' content
                                                    (disk b2 db))\<rparr>))
         else if key_type parsed = Some ''part'' then
           (if falsy (key_sessionID parsed) then
              (Inl (Error (''Cannot write part: session unknown for message ''
                           @ template (js_index key 1))), b)
            else
              (case getSessionDB (key_sessionID parsed) b of
                 Inl e \<Rightarrow> (Inl e, b)
               | Inr (db, b2) \<Rightarrow>
                   (Inr (),
                    b2\<lparr>disk := (disk b2)(db := upsert_storage now keyStr ''part'' content
                                                    (disk b2 db))\<rparr>)))
         else (Inl (Error (''Unknown key type: '' @ template (key_type parsed))), b))"

definition update ::
  "int \<Rightarrow> string list \<Rightarrow> ('v \<Rightarrow> 'v) \<Rightarrow> 'v backend \<Rightarrow> (storage_error + 'v) \<times> 'v backend" where
  "update now key fn b =
     (case read key b of
        (Inl e, b1) \<Rightarrow> (Inl e, b1)
      | (Inr content, b1) \<Rightarrow>
          (case write' now key (fn content) b1 of
             (Inl e, b2) \<Rightarrow> (Inl e, b2)
           | (Inr u, b2) \<Rightarrow> (Inr (fn content), b2)))"

definition remove :: "string list \<Rightarrow> 'v backend \<Rightarrow> (storage_error + unit) \<times> 'v backend" where
  "remove key b =
     (let parsed = parseKey b key
      in if key_type parsed = Some ''session'' then
           (let sessionID = key_sessionID parsed;
                path = dbPath b sessionID
            in (Inr (),
                b\<lparr>sessionsMetaDB :=
                     filter (\<lambda>r. \<not> (sessionID \<noteq> None \<and> session_id r = sessionID))
                       (sessionsMetaDB b),
                  sessionDBs := (sessionDBs b)(sessionID := None),
                  files := (files b)(path := None, path @ ''-wal'' := None,
                                     path @ ''-shm'' := None)\<rparr>))
         else if key_type parsed = Some ''message'' \<or> key_type parsed = Some ''part'' then
           (let keyStr = join_slash key
            in if falsy (key_sessionID parsed) then
                 (Inl (Error (''Cannot remove '' @ template (key_type parsed)
                              @ '': session unknown'')), b)
               else
                 (case getSessionDB (key_sessionID parsed) b of
                    Inl e \<Rightarrow> (Inl e, b)
                  | Inr (db, b2) \<Rightarrow>
                      (Inr (),
                       b2\<lparr>disk := (disk b2)(db :=
                             filter (\<lambda>r. \<not> (row_key r = keyStr
                                              \<or> sql_like (keyStr @ ''/%'') (row_key r)))
                               (disk b2 db))\<rparr>)))
         else (Inr (), b))"

text \<open>\<open>list\<close> returns key segments; a segment is \<open>None\<close> where the row holds \<open>NULL\<close>.
  \<open>ORDER BY updated_at DESC\<close> is a stable sort of the rows in insertion order (SQLite
  leaves the order of equal timestamps open), \<open>ORDER BY key\<close> compares bytes.\<close>

definition list ::
  "string list \<Rightarrow> 'v backend \<Rightarrow> (storage_error + string option list list) \<times> 'v backend" where
  "list prefix b =
     (let prefixStr = join_slash prefix; type = js_index prefix 0
      in if type = Some ''session'' then
           (let projectID = js_index prefix 1;
                rows = sort_key (\<lambda>r. - session_updated_at r)
                         (filter (\<lambda>r. Some (project_id r) = projectID) (sessionsMetaDB b))
            in (Inr (map (\<lambda>row. [Some ''session'', projectID, session_id row]) rows), b))
         else if type = Some ''message'' \<or> type = Some ''part'' then
           (let sessionID = js_index prefix 1
            in case getSessionDB sessionID b of
                 Inl e \<Rightarrow> (Inl e, b)
               | Inr (db, b2) \<Rightarrow>
                   (let pattern = (if prefixStr \<noteq> [] then prefixStr @ ''/%'' else ''%'');
                        rows = sort_key row_key
                                 (filter (\<lambda>r. sql_like pattern (row_key r)) (disk b2 db))
                    in (Inr (map (\<lambda>row. map Some (split_slash (row_key row))) rows), b2)))
         else (Inr [], b))"

section \<open>The storage facade (packages/opencode/src/storage/storage.ts)\<close>

text \<open>The facade hands each call to the backend of the instance. An operation and its
  outcome are values, so that sequences of calls can be run.\<close>

datatype 'v storage_op =
    Read "string list"
  | Write "string list" 'v
  | Update "string list" "'v \<Rightarrow> 'v"
  | Remove "string list"
  | List "string list"

datatype 'v outcome =
    Returned 'v
  | Done
  | Keys "string option list list"
  | Threw storage_error

definition exec :: "int \<Rightarrow> 'v storage_op \<Rightarrow> 'v backend \<Rightarrow> 'v outcome \<times> 'v backend" where
  "exec now op b =
     (case op of
        Read key \<Rightarrow>
          (case read key b of (Inl e, b') \<Rightarrow> (Threw e, b') | (Inr v, b') \<Rightarrow> (Returned v, b'))
      | Write key v \<Rightarrow>
          (case write' now key v b of (Inl e, b') \<Rightarrow> (Threw e, b') | (Inr u, b') \<Rightarrow> (Done, b'))
      | Update key fn \<Rightarrow>
          (case update now key fn b of
             (Inl e, b') \<Rightarrow> (Threw e, b')
           | (Inr v, b') \<Rightarrow> (Returned v, b'))
      | Remove key \<Rightarrow>
          (case remove key b of (Inl e, b') \<Rightarrow> (Threw e, b') | (Inr u, b') \<Rightarrow> (Done, b'))
      | List prefix \<Rightarrow>
          (case list prefix b of (Inl e, b') \<Rightarrow> (Threw e, b') | (Inr ks, b') \<Rightarrow> (Keys ks, b')))"

text \<open>
  Which session database an operation opens through \<open>getSessionDB\<close>, read off the
  operations: a message or part key whose session ID resolves to a non-empty string
  (for \<open>read\<close>, \<open>update\<close>, \<open>remove\<close> and a part \<open>write\<close>), the second segment of a
  message key for \<open>write\<close>, whatever it is, and the second segment of a message prefix
  for \<open>list\<close>. A \<open>list\<close> of a part prefix is set apart (\<open>part_list\<close>): what it opens is
  not described here. A session \<open>remove\<close> unlinks the session's file and its two sidecar
  files.
\<close>

definition resolved :: "'v backend \<Rightarrow> string list \<Rightarrow> string option option" where
  "resolved b key =
     (let parsed = parseKey b key
      in if (key_type parsed = Some ''message'' \<or> key_type parsed = Some ''part'')
            \<and> \<not> falsy (key_sessionID parsed)
         then Some (key_sessionID parsed) else None)"



text \<open>Opening a session creates its file when no handle for it is cached, the file does
  not exist and it can be created.\<close>

definition created :: "'v backend \<Rightarrow> string option option \<Rightarrow> string set" where
  "created b x =
     (case x of
        None \<Rightarrow> {}
      | Some sessionID \<Rightarrow>
          if sessionDBs b sessionID = None \<and> files b (dbPath b sessionID) = None
             \<and> creatable b (dbPath b sessionID)
          then {dbPath b sessionID} else {})"



text \<open>
  When the database of a session can be opened: its handle is cached, or its file
  exists, or the file can be created. And when a cached handle is the database that the
  session's file holds, as it is unless the file was unlinked or replaced under another
  session ID with the same path.
\<close>

definition can_open :: "'v backend \<Rightarrow> string option \<Rightarrow> bool" where
  "can_open b sessionID =
     (sessionDBs b sessionID \<noteq> None \<or> files b (dbPath b sessionID) \<noteq> None
      \<or> creatable b (dbPath b sessionID))"

definition handle_current :: "'v backend \<Rightarrow> string option \<Rightarrow> bool" where
  "handle_current b sessionID =
     (case sessionDBs b sessionID of
        None \<Rightarrow> True
      | Some db \<Rightarrow> files b (dbPath b sessionID) = Some db)"

text \<open>
  A session ID that the backend can serve: non-empty and without \<open>/\<close>, as the segments
  of the specification's keys are, on a backend whose \<open>sessions\<close> directory exists (the
  constructor makes it), where no directory has the name of the session's database
  file and the platform does not refuse that name. The file then lies in the \<open>sessions\<close>
  directory and can be created.
\<close>

definition usable_session :: "'v backend \<Rightarrow> string \<Rightarrow> bool" where
  "usable_session b s =
     (s \<noteq> [] \<and> CHR ''/'' \<notin> set s \<and> sessionsDir b \<in> dirs b
      \<and> dbPath b (Some s) \<notin> dirs b \<and> \<not> refused b (dbPath b (Some s)))"

text \<open>What no operation changes: the base directory, the directories and the
  platform.\<close>

definition environment :: "'v backend \<Rightarrow> string \<times> string set \<times> (string \<Rightarrow> bool)" where
  "environment b = (baseDir b, dirs b, refused b)"

text \<open>A platform that refuses a path of more than 4095 bytes and a name of more than
  255. A backend on an empty project directory of that platform, and the one after
  scenario S7's two writes.\<close>

definition posix_limits :: "string \<Rightarrow> bool" where
  "posix_limits path =
     (4095 < length path \<or> list_ex (\<lambda>name. 255 < length name) (split_slash path))"

definition fresh_backend :: "string backend" where
  "fresh_backend = new_backend posix_limits ''/proj''"

definition after_message :: "string backend" where
  "after_message = snd (write' 1 [''message'', ''sX'', ''mA''] ''info'' fresh_backend)"

definition after_part :: "string backend" where
  "after_part = snd (write' 2 [''part'', ''mA'', ''p0''] ''text'' after_message)"

section \<open>JsonBackend (packages/opencode/src/storage/json-backend.ts)\<close>

text \<open>
  The legacy backend keeps one file per key under \<open>dir\<close>: the record of \<open>key\<close> is the
  content of the file \<open>path.join(dir, ...key) + ".json"\<close>. The file tree is the map from
  the path of each regular file to the JSON value it holds, with the set of the
  directories. The operation carries the prefix \<open>json_\<close> to tell it from the one of the
  SQLite backend.
\<close>

record 'v json_tree =
  json_files :: "string \<rightharpoonup> 'v"
  json_dirs :: "string set"

definition json_target :: "string \<Rightarrow> string list \<Rightarrow> string" where
  "json_target dir key = path_join (dir # key) @ ''.json''"

text \<open>\<open>fs.unlink(target).catch(() => {})\<close>: the file goes if it is there, and no error
  of \<open>unlink\<close> reaches the caller: not that of a missing file, and not that of a
  directory, which stays.\<close>

definition json_remove ::
  "string \<Rightarrow> string list \<Rightarrow> 'v json_tree \<Rightarrow> (storage_error + unit) \<times> 'v json_tree" where
  "json_remove dir key fs =
     (let target = json_target dir key
      in (Inr (),
          if target \<in> json_dirs fs then fs
          else fs\<lparr>json_files := (json_files fs)(target := None)\<rparr>))"

text \<open>A well-formed key: at least one segment, no segment empty or containing \<open>/\<close>
  (section 3 of the specification), and no segment \<open>.\<close> or \<open>..\<close>, which \<open>path.join\<close>
  resolves.\<close>

definition wf_segment :: "string \<Rightarrow> bool" where
  "wf_segment seg =
     (seg \<noteq> [] \<and> CHR ''/'' \<notin> set seg \<and> seg \<noteq> ''.'' \<and> seg \<noteq> ''..'')"

definition wf_key :: "string list \<Rightarrow> bool" where
  "wf_key key = (key \<noteq> [] \<and> list_all wf_segment key)"

text \<open>The components that \<open>path.join\<close> keeps of \<open>dir\<close>, the backend's directory,
  when only well-formed segments follow it.\<close>

definition dir_stack :: "string \<Rightarrow> string list" where
  "dir_stack dir = (if dir = [] then [] else
     rev (foldl (normalize_step (hd dir \<noteq> CHR ''/'')) [] (split_slash dir)))"

text \<open>
  Two file trees under \<open>/data\<close>. In the first a session record and a record below the
  same name are stored, as \<open>write(["session","p1"], "parent")\<close> and
  \<open>write(["session","p1","s1"], "child")\<close> leave them. The second is the tree after
  \<open>write(["a","b",".."], "kept")\<close>: \<open>path.join\<close> resolves the key to \<open>/data/a\<close>, so the
  record is in \<open>/data/a.json\<close>.
\<close>

definition sample_tree :: "string json_tree" where
  "sample_tree =
     \<lparr>json_files = [''/data/session/p1.json'' \<mapsto> ''parent'',
                     ''/data/session/p1/s1.json'' \<mapsto> ''child''],
      json_dirs = {''/'', ''/data'', ''/data/session'', ''/data/session/p1''}\<rparr>"

definition dotted_tree :: "string json_tree" where
  "dotted_tree =
     \<lparr>json_files = [''/data/a.json'' \<mapsto> ''kept''], json_dirs = {''/'', ''/data''}\<rparr>"

section \<open>Properties of the retry controller\<close>

lemma exponential_small:
  assumes "1 \<le> a" and "a \<le> 9"
  shows "2000 \<le> exponential a \<and> exponential a \<le> 600000"
proof -
  have "a = 1 \<or> a = 2 \<or> a = 3 \<or> a = 4 \<or> a = 5 \<or> a = 6 \<or> a = 7 \<or> a = 8 \<or> a = 9"
    using assms by arith
  then show ?thesis
    by (auto simp: exponential_def RETRY_INITIAL_DELAY_def RETRY_BACKOFF_FACTOR_def)
qed

lemma exponential_large:
  assumes "10 \<le> a"
  shows "exponential a > 600000"
proof -
  have "(2::real) powi 9 \<le> 2 powi (a - 1)"
    using assms by (intro power_int_increasing) auto
  then show ?thesis
    by (simp add: exponential_def RETRY_INITIAL_DELAY_def RETRY_BACKOFF_FACTOR_def)
qed

text \<open>
  Claim C1, as the specification states it, fails: with no headers, attempt 5 and the
  whole default budget left, the code returns the exponential 32000 (it takes the value
  of \<open>getRetryDelayInMs\<close>, which has no 30-second cap), where the claim's
  \<open>min(delay, maxDuration - elapsed)\<close> is 30000.
\<close>

theorem getBoundedDelay_differs_from_spec:
  "getBoundedDelay sample_runtime
     \<lparr>error = no_headers, attempt = 5, startTime = 1700000000000, maxDuration = None\<rparr>
     = Some 32000
   \<and> spec_getBoundedDelay sample_runtime
     \<lparr>error = no_headers, attempt = 5, startTime = 1700000000000, maxDuration = None\<rparr>
     = Some 30000"
  by (simp add: getBoundedDelay_def spec_getBoundedDelay_def getRetryDelayInMs_def
      spec_delay_def no_headers_def sample_runtime_def exponential_def
      RETRY_INITIAL_DELAY_def RETRY_BACKOFF_FACTOR_def TEN_MINUTES_def)

text \<open>
  Claim C1, amended: \<open>getBoundedDelay\<close> gives up exactly when the elapsed time has
  reached \<open>maxDuration\<close> (default 600000), or the delay of \<open>getRetryDelayInMs\<close> (that
  of \<open>delay\<close> with headers, the exponential without the 30-second cap with none) exceeds
  the fixed 600000 ms, or the capped delay is not positive; otherwise it returns that
  delay capped to \<open>maxDuration - elapsed\<close>.
\<close>

theorem getBoundedDelay_characterisation:
  "getBoundedDelay rt args =
     (let limit = (case maxDuration args of Some m \<Rightarrow> m | None \<Rightarrow> 600000);
          elapsed = real_of_int (Date_now rt) - startTime args;
          r = unbounded_delay rt (error args) (attempt args);
          capped = min r (limit - elapsed)
      in if elapsed \<ge> limit \<or> r > 600000 \<or> capped \<le> 0 then None else Some capped)"
  by (auto simp: getBoundedDelay_def getRetryDelayInMs_def unbounded_delay_def
      TEN_MINUTES_def Let_def split: option.splits)

theorem getBoundedDelay_characterisation_witness:
  "getBoundedDelay sample_runtime
     \<lparr>error = both_hints, attempt = 1, startTime = 1699999999500, maxDuration = Some 1000\<rparr>
     = Some 500"
  using getBoundedDelay_characterisation [of sample_runtime
      "\<lparr>error = both_hints, attempt = 1, startTime = 1699999999500, maxDuration = Some 1000\<rparr>"]
  by (simp add: unbounded_delay_def delay_def both_hints_def sample_runtime_def
      parse_digits_def digit_value_def)

text \<open>
  Claim C2, as stated, fails: with no headers and attempt 10 the exponential is
  1024000 > 600000, so \<open>getRetryDelayInMs\<close> gives up and so does \<open>getBoundedDelay\<close>,
  although 1000 ms of the budget are left.
\<close>

theorem getBoundedDelay_attempt_10_gives_up:
  "getBoundedDelay sample_runtime
     \<lparr>error = no_headers, attempt = 10, startTime = 1699999401000,
      maxDuration = Some 600000\<rparr> = None"
  by (simp add: getBoundedDelay_def getRetryDelayInMs_def no_headers_def sample_runtime_def
      exponential_def RETRY_INITIAL_DELAY_def RETRY_BACKOFF_FACTOR_def TEN_MINUTES_def)

text \<open>
  Claim C2, amended: for an error with no headers, a start 599000 ms ago and
  \<open>maxDuration\<close> 600000, every attempt from 1 to 9 gets the delay 1000 (positive and
  at most 1000, the remaining time), and every attempt from 10 on gets "give up".
\<close>

theorem getBoundedDelay_last_second:
  assumes "responseHeaders e = None"
    and "start = real_of_int (Date_now rt) - 599000"
  shows "(1 \<le> a \<and> a \<le> 9 \<longrightarrow>
            getBoundedDelay rt
              \<lparr>error = e, attempt = a, startTime = start, maxDuration = Some 600000\<rparr>
            = Some 1000)
       \<and> (10 \<le> a \<longrightarrow>
            getBoundedDelay rt
              \<lparr>error = e, attempt = a, startTime = start, maxDuration = Some 600000\<rparr>
            = None)"
proof (intro conjI impI)
  assume "1 \<le> a \<and> a \<le> 9"
  then have "2000 \<le> exponential a \<and> exponential a \<le> 600000"
    by (simp add: exponential_small)
  then show "getBoundedDelay rt
      \<lparr>error = e, attempt = a, startTime = start, maxDuration = Some 600000\<rparr> = Some 1000"
    using assms by (simp add: getBoundedDelay_def getRetryDelayInMs_def TEN_MINUTES_def)
next
  assume "10 \<le> a"
  then have "exponential a > 600000"
    by (rule exponential_large)
  then show "getBoundedDelay rt
      \<lparr>error = e, attempt = a, startTime = start, maxDuration = Some 600000\<rparr> = None"
    using assms by (simp add: getBoundedDelay_def getRetryDelayInMs_def TEN_MINUTES_def)
qed

theorem getBoundedDelay_last_second_witness:
  "responseHeaders no_headers = None
   \<and> (1699999401000 :: real) = real_of_int (Date_now sample_runtime) - 599000
   \<and> (1::int) \<le> 9 \<and> (9::int) \<le> 9
   \<and> getBoundedDelay sample_runtime
        \<lparr>error = no_headers, attempt = 9, startTime = 1699999401000,
         maxDuration = Some 600000\<rparr> = Some 1000"
proof -
  have h1: "responseHeaders no_headers = None"
    by (simp add: no_headers_def)
  have h2: "(1699999401000 :: real) = real_of_int (Date_now sample_runtime) - 599000"
    by (simp add: sample_runtime_def)
  show ?thesis
    using h1 h2 getBoundedDelay_last_second [OF h1 h2, of 9] by simp
qed

text \<open>
  Claim C9: \<open>delay\<close> is the hint-precedence algorithm of section 4.4. A number in
  \<open>retry-after-ms\<close> is returned as it is, whatever \<open>retry-after\<close> holds; else a number
  in \<open>retry-after\<close> gives \<open>ceil(n * 1000)\<close>; else a date in \<open>retry-after\<close> that lies in
  the future gives the difference to now; else, with headers, the uncapped exponential;
  with no headers the exponential capped at 30000. The two hypotheses are facts of
  JavaScript (the empty string is neither a number nor a date); the code does not parse
  an empty header value at all.
\<close>

theorem delay_is_hint_precedence:
  assumes "parseFloat rt [] = None" and "Date_parse rt [] = None"
  shows "delay rt e a = spec_delay rt e a"
  using assms
  by (auto simp: delay_def spec_delay_def exponential_def RETRY_INITIAL_DELAY_def
      RETRY_BACKOFF_FACTOR_def RETRY_MAX_DELAY_NO_HEADERS_def Let_def
      split: option.splits Option.bind_splits)

theorem delay_is_hint_precedence_witness:
  "parseFloat sample_runtime [] = None \<and> Date_parse sample_runtime [] = None
   \<and> delay sample_runtime both_hints 1 = spec_delay sample_runtime both_hints 1
   \<and> spec_delay sample_runtime both_hints 1 = 750"
proof -
  have h1: "parseFloat sample_runtime [] = None"
    by (simp add: sample_runtime_def parse_digits_def)
  have h2: "Date_parse sample_runtime [] = None"
    by (simp add: sample_runtime_def no_date_def)
  have "spec_delay sample_runtime both_hints 1 = 750"
    by (simp add: spec_delay_def both_hints_def sample_runtime_def parse_digits_def
        digit_value_def)
  then show ?thesis
    using h1 h2 delay_is_hint_precedence [OF h1 h2, of both_hints 1] by simp
qed

section \<open>Properties of the JavaScript helpers\<close>

lemma split_slash_nonempty: "split_slash s \<noteq> []"
  by (induction s) (auto split: list.splits)

lemma split_slash_no_slash: "CHR ''/'' \<notin> set s \<Longrightarrow> split_slash s = [s]"
  by (induction s) auto

lemma split_slash_append: "split_slash (a @ CHR ''/'' # b) = split_slash a @ split_slash b"
proof (induction a)
  case Nil
  then show ?case by simp
next
  case (Cons c a)
  obtain w ws where "split_slash a = w # ws"
    using split_slash_nonempty [of a] by (cases "split_slash a") auto
  then show ?case using Cons by simp
qed

lemma split_slash_join:
  "xs \<noteq> [] \<Longrightarrow> split_slash (join_slash xs) = concat (map split_slash xs)"
proof (induction xs rule: join_slash.induct)
  case 1
  then show ?case by simp
next
  case (2 x)
  then show ?case by simp
next
  case (3 x y ys)
  then show ?case by (simp add: split_slash_append)
qed

lemma concat_split_slash:
  "\<forall>x \<in> set xs. CHR ''/'' \<notin> set x \<Longrightarrow> concat (map split_slash xs) = xs"
  by (induction xs) (simp_all add: split_slash_no_slash)

lemma split_join_id:
  assumes "xs \<noteq> []" and "\<forall>x \<in> set xs. CHR ''/'' \<notin> set x"
  shows "split_slash (join_slash xs) = xs"
  using assms by (simp add: split_slash_join concat_split_slash)

lemma join_slash_inj:
  assumes "xs \<noteq> []" and "ys \<noteq> []"
    and "\<forall>x \<in> set xs. CHR ''/'' \<notin> set x" and "\<forall>x \<in> set ys. CHR ''/'' \<notin> set x"
    and eq: "join_slash xs = join_slash ys"
  shows "xs = ys"
proof -
  have "xs = split_slash (join_slash xs)"
    using assms(1,3) by (rule split_join_id [symmetric])
  also have "\<dots> = split_slash (join_slash ys)"
    by (simp only: eq)
  also have "\<dots> = ys"
    using assms(2,4) by (rule split_join_id)
  finally show ?thesis .
qed

lemma split_slash_parts: "\<forall>x \<in> set (split_slash s). CHR ''/'' \<notin> set x"
proof (induction s)
  case Nil
  then show ?case by simp
next
  case (Cons c s)
  obtain w ws where ws: "split_slash s = w # ws"
    using split_slash_nonempty [of s] by (cases "split_slash s") auto
  then show ?case using Cons by simp
qed

lemma normalize_step_wf: "wf_segment c \<Longrightarrow> normalize_step a st c = c # st"
  by (simp add: normalize_step_def wf_segment_def)

lemma foldl_normalize_wf: "list_all wf_segment k \<Longrightarrow> foldl (normalize_step a) st k = rev k @ st"
  by (induction k arbitrary: st) (simp_all add: normalize_step_wf)

lemma normalize_step_parts:
  assumes "\<forall>x \<in> set st. CHR ''/'' \<notin> set x" and "CHR ''/'' \<notin> set c"
  shows "\<forall>x \<in> set (normalize_step a st c). CHR ''/'' \<notin> set x"
proof (cases st)
  case Nil
  then show ?thesis using assms by (simp add: normalize_step_def)
next
  case (Cons t ts)
  then show ?thesis using assms by (simp add: normalize_step_def)
qed

lemma foldl_normalize_parts:
  "\<forall>x \<in> set st. CHR ''/'' \<notin> set x \<Longrightarrow> \<forall>c \<in> set cs. CHR ''/'' \<notin> set c \<Longrightarrow>
   \<forall>x \<in> set (foldl (normalize_step a) st cs). CHR ''/'' \<notin> set x"
proof (induction cs arbitrary: st)
  case Nil
  then show ?case by simp
next
  case (Cons c cs)
  have 1: "\<forall>x \<in> set (normalize_step a st c). CHR ''/'' \<notin> set x"
    using Cons.prems by (intro normalize_step_parts) simp_all
  have 2: "\<forall>c \<in> set cs. CHR ''/'' \<notin> set c"
    using Cons.prems(2) by simp
  have "\<forall>x \<in> set (foldl (normalize_step a) (normalize_step a st c) cs). CHR ''/'' \<notin> set x"
    using 1 2 by (rule Cons.IH)
  then show ?case by simp
qed

lemma join_slash_last:
  "xs \<noteq> [] \<Longrightarrow> last xs \<noteq> [] \<Longrightarrow> join_slash xs \<noteq> [] \<and> last (join_slash xs) = last (last xs)"
  by (induction xs rule: join_slash.induct) simp_all

lemma join_slash_hd:
  "xs \<noteq> [] \<Longrightarrow> hd xs \<noteq> [] \<Longrightarrow> hd (join_slash xs) = hd (hd xs)"
  by (induction xs rule: join_slash.induct) simp_all

lemma path_normalize_plain:
  assumes "p \<noteq> []" and "last p \<noteq> CHR ''/''"
  shows "path_normalize p =
     (if normalizeString (hd p \<noteq> CHR ''/'') p = []
      then (if hd p = CHR ''/'' then ''/'' else ''.'')
      else (if hd p = CHR ''/'' then ''/'' else []) @ normalizeString (hd p \<noteq> CHR ''/'') p)"
  using assms by (simp add: path_normalize_def Let_def)

lemma join_slash_nonempty_parts:
  "xs \<noteq> [] \<Longrightarrow> last xs \<noteq> [] \<Longrightarrow> join_slash xs \<noteq> []"
  by (simp add: join_slash_last)

lemma join_slash_Cons: "ys \<noteq> [] \<Longrightarrow> join_slash (x # ys) = x @ CHR ''/'' # join_slash ys"
  by (cases ys) simp_all

lemma path_join_wf:
  assumes "wf_key k"
  shows "path_join (dir # k) =
     (if dir \<noteq> [] \<and> hd dir = CHR ''/'' then ''/'' else []) @ join_slash (dir_stack dir @ k)"
proof -
  from assms have k: "k \<noteq> []" "list_all wf_segment k" by (simp_all add: wf_key_def)
  then have ne: "\<forall>x \<in> set k. x \<noteq> []" and ns: "\<forall>x \<in> set k. CHR ''/'' \<notin> set x"
    by (simp_all add: list_all_iff wf_segment_def)
  have lastk: "last k \<noteq> []" "CHR ''/'' \<notin> set (last k)" using k(1) ne ns by simp_all
  have hdk: "hd k \<noteq> []" "CHR ''/'' \<notin> set (hd k)" using k(1) ne ns by simp_all
  have filt: "filter (\<lambda>arg. arg \<noteq> []) k = k" using ne by (simp add: filter_id_conv)
  show ?thesis
  proof (cases "dir = []")
    case True
    have jne: "join_slash k \<noteq> []" and jl: "last (join_slash k) = last (last k)"
      using join_slash_last [OF k(1) lastk(1)] by simp_all
    have jh: "hd (join_slash k) = hd (hd k)" using join_slash_hd [OF k(1) hdk(1)] by simp
    have nh: "hd (join_slash k) \<noteq> CHR ''/''" using hdk jh by (cases "hd k") auto
    have nl: "last (join_slash k) \<noteq> CHR ''/''" using lastk jl by (metis last_in_set)
    have sp: "split_slash (join_slash k) = k" using split_join_id [OF k(1) ns] .
    have ns': "normalizeString True (join_slash k) = join_slash k"
      by (simp add: normalizeString_def sp foldl_normalize_wf [OF k(2)])
    have "path_normalize (join_slash k) = join_slash k"
      using jne nh by (simp add: path_normalize_plain [OF jne nl] ns')
    then show ?thesis using True k(1) by (simp add: path_join_def filt dir_stack_def)
  next
    case False
    define joined where "joined = dir @ CHR ''/'' # join_slash k"
    have jne: "joined \<noteq> []" by (simp add: joined_def)
    have jh: "hd joined = hd dir" using False by (simp add: joined_def)
    have "last joined = last (join_slash k)"
      using join_slash_last [OF k(1) lastk(1)] by (simp add: joined_def)
    then have jl: "last joined = last (last k)"
      using join_slash_last [OF k(1) lastk(1)] by simp
    have nl: "last joined \<noteq> CHR ''/''" using lastk jl by (metis last_in_set)
    have sp: "split_slash joined = split_slash dir @ k"
      using split_join_id [OF k(1) ns] by (simp add: joined_def split_slash_append)
    have fo: "rev (foldl (normalize_step (hd dir \<noteq> CHR ''/''))
                 (foldl (normalize_step (hd dir \<noteq> CHR ''/'')) [] (split_slash dir)) k)
              = dir_stack dir @ k"
      using False by (simp add: foldl_normalize_wf [OF k(2)] dir_stack_def)
    have ns': "normalizeString (hd dir \<noteq> CHR ''/'') joined = join_slash (dir_stack dir @ k)"
      by (simp add: normalizeString_def sp fo)
    have nsT: "hd dir \<noteq> CHR ''/'' \<Longrightarrow> normalizeString True joined = join_slash (dir_stack dir @ k)"
      using ns' by simp
    have nsF: "hd dir = CHR ''/'' \<Longrightarrow> normalizeString False joined = join_slash (dir_stack dir @ k)"
      using ns' by simp
    have "last (dir_stack dir @ k) \<noteq> []" using k(1) lastk(1) by simp
    then have pne: "join_slash (dir_stack dir @ k) \<noteq> []"
      using k(1) by (intro join_slash_nonempty_parts) simp_all
    have "path_normalize joined =
        (if hd dir = CHR ''/'' then ''/'' else []) @ join_slash (dir_stack dir @ k)"
      using pne by (simp add: path_normalize_plain [OF jne nl] nsT nsF jh)
    moreover have "path_join (dir # k) = path_normalize joined"
      using False k(1) by (simp add: path_join_def filt joined_def join_slash_Cons)
    ultimately show ?thesis using False by simp
  qed
qed

lemma dir_stack_parts: "\<forall>x \<in> set (dir_stack dir). CHR ''/'' \<notin> set x"
proof -
  have "\<forall>x \<in> set (foldl (normalize_step (hd dir \<noteq> CHR ''/'')) [] (split_slash dir)).
          CHR ''/'' \<notin> set x"
    by (rule foldl_normalize_parts) (simp_all add: split_slash_parts)
  then show ?thesis by (simp add: dir_stack_def)
qed

lemma path_join_inj:
  assumes "wf_key k" and "wf_key k'" and "path_join (dir # k) = path_join (dir # k')"
  shows "k = k'"
proof -
  have k: "k \<noteq> []" "\<forall>x \<in> set k. CHR ''/'' \<notin> set x"
    using assms(1) by (simp_all add: wf_key_def list_all_iff wf_segment_def)
  have k': "k' \<noteq> []" "\<forall>x \<in> set k'. CHR ''/'' \<notin> set x"
    using assms(2) by (simp_all add: wf_key_def list_all_iff wf_segment_def)
  have "join_slash (dir_stack dir @ k) = join_slash (dir_stack dir @ k')"
    using assms(3) by (simp add: path_join_wf [OF assms(1)] path_join_wf [OF assms(2)])
  moreover have "\<forall>x \<in> set (dir_stack dir @ k). CHR ''/'' \<notin> set x"
    using k(2) dir_stack_parts [of dir] by auto
  moreover have "\<forall>x \<in> set (dir_stack dir @ k'). CHR ''/'' \<notin> set x"
    using k'(2) dir_stack_parts [of dir] by auto
  ultimately have "dir_stack dir @ k = dir_stack dir @ k'"
    using k(1) k'(1) by (intro join_slash_inj) simp_all
  then show ?thesis by simp
qed

lemma json_target_inj:
  assumes "wf_key k" and "wf_key k'" and "json_target dir k = json_target dir k'"
  shows "k = k'"
  using assms by (auto simp: json_target_def intro: path_join_inj)

section \<open>Properties of the SQLite backend\<close>

lemma js_index_Cons [simp]:
  "js_index (x # xs) 0 = Some x" "js_index (x # xs) (Suc n) = js_index xs n" "js_index [] n = None"
  by (simp_all add: js_index_def)

lemma js_index_drop: "js_index (drop (Suc 0) key) n = js_index key (Suc n)"
  by (cases key) (simp_all add: js_index_def)

lemma parseKey_session: "parseKey b [''session'', p, s] =
   \<lparr>key_type = Some ''session'', key_sessionID = Some s, key_id = None\<rparr>"
  by (simp add: parseKey_def js_index_def)

lemma parseKey_message: "parseKey b [''message'', s, m] =
   \<lparr>key_type = Some ''message'', key_sessionID = Some s, key_id = Some m\<rparr>"
  by (simp add: parseKey_def js_index_def)

lemma parseKey_part: "parseKey b [''part'', m, p] =
   \<lparr>key_type = Some ''part'',
    key_sessionID = (case messageSessionCache b (Some m) of Some s \<Rightarrow> s | None \<Rightarrow> None),
    key_id = Some p\<rparr>"
  by (simp add: parseKey_def js_index_def)

lemma parseKey_disk: "parseKey (b\<lparr>disk := d\<rparr>) key = parseKey b key"
  by (simp add: parseKey_def Let_def)


lemma parseKey_type_message:
  "key_type (parseKey b key) = Some ''message'' \<longleftrightarrow> js_index key 0 = Some ''message''"
  by (auto simp: parseKey_def Let_def)

lemma parseKey_message_session:
  "js_index key 0 = Some ''message'' \<Longrightarrow> key_sessionID (parseKey b key) = js_index key 1"
  by (simp add: parseKey_def Let_def js_index_drop)

lemma parseKey_type_session:
  "key_type (parseKey b key) = Some ''session'' \<longleftrightarrow> js_index key 0 = Some ''session''"
  by (auto simp: parseKey_def Let_def)

subsection \<open>Opening a session database\<close>

lemma getSessionDB_cached: "sessionDBs b sid = Some db \<Longrightarrow> getSessionDB sid b = Inr (db, b)"
  by (simp add: getSessionDB_def)

lemma getSessionDB_handle:
  "getSessionDB sid b = Inr (db, b') \<Longrightarrow> sessionDBs b' sid = Some db"
  by (auto simp: getSessionDB_def Let_def split: option.splits if_splits)

lemma getSessionDB_frame:
  "getSessionDB sid b = Inr (db, b') \<Longrightarrow>
     baseDir b' = baseDir b \<and> dirs b' = dirs b \<and> sessionsMetaDB b' = sessionsMetaDB b
     \<and> messageSessionCache b' = messageSessionCache b \<and> refused b' = refused b"
  by (auto simp: getSessionDB_def Let_def split: option.splits if_splits)



lemma getSessionDB_fresh:
  "sessionDBs b sid = None \<Longrightarrow> files b (dbPath b sid) = None \<Longrightarrow>
     getSessionDB sid b = Inr (db, b') \<Longrightarrow> disk b' db = []"
  by (auto simp: getSessionDB_def Let_def split: option.splits if_splits)

lemma getSessionDB_file:
  "handle_current b sid \<Longrightarrow> getSessionDB sid b = Inr (db, b') \<Longrightarrow>
     files b' (dbPath b sid) = Some db"
  by (auto simp: getSessionDB_def handle_current_def Let_def split: option.splits if_splits)

lemma can_open_getSessionDB:
  "can_open b sid \<longleftrightarrow> (\<exists>db b'. getSessionDB sid b = Inr (db, b'))"
  by (auto simp: can_open_def getSessionDB_def Let_def split: option.splits)

lemma can_open_cache:
  "can_open (b\<lparr>messageSessionCache := c\<rparr>) sid = can_open b sid"
  by (simp add: can_open_def dbPath_def creatable_def)

lemma handle_current_cache:
  "handle_current (b\<lparr>messageSessionCache := c\<rparr>) sid = handle_current b sid"
  by (simp add: handle_current_def dbPath_def split: option.splits)

lemma dbPath_frame: "baseDir b' = baseDir b \<Longrightarrow> dbPath b' sid = dbPath b sid"
  by (simp add: dbPath_def)

subsection \<open>Rows\<close>

lemma select_upsert_storage:
  "\<exists>row. select_storage k (upsert_storage now k t d rows) = Some row \<and> row_data row = d"
  by (induction rows) (simp_all add: select_storage_def)

lemma select_upsert_session:
  "\<exists>row. select_session (Some s) (upsert_session now (Some s) pid d rows) = Some row
         \<and> session_data row = d"
  by (induction rows) (simp_all add: select_session_def)

lemma select_session_deleted:
  "select_session (Some s) (filter (\<lambda>r. session_id r \<noteq> Some s) rows) = None"
  by (auto simp: select_session_def find_None_iff)

subsection \<open>The operations on keys of the three stored types\<close>

lemma remove_session:
  "remove [''session'', p, s] b =
     (Inr (),
      b\<lparr>sessionsMetaDB := filter (\<lambda>r. session_id r \<noteq> Some s) (sessionsMetaDB b),
        sessionDBs := (sessionDBs b)(Some s := None),
        files := (files b)(dbPath b (Some s) := None, dbPath b (Some s) @ ''-wal'' := None,
                           dbPath b (Some s) @ ''-shm'' := None)\<rparr>)"
  by (simp add: remove_def parseKey_session Let_def)

lemma session_round_trip:
  "fst (write' now [''session'', p, s] v b) = Inr ()
   \<and> fst (read [''session'', p, s] (snd (write' now [''session'', p, s] v b))) = Inr v"
proof -
  from select_upsert_session [of s now p v "sessionsMetaDB b"]
  obtain row where r: "select_session (Some s) (upsert_session now (Some s) p v (sessionsMetaDB b)) = Some row"
    and d: "session_data row = v" by (elim exE conjE)
  have w: "write' now [''session'', p, s] v b =
      (Inr (), b\<lparr>sessionsMetaDB := upsert_session now (Some s) p v (sessionsMetaDB b)\<rparr>)"
    by (simp add: write'_def parseKey_session js_index_def)
  show ?thesis
    by (simp add: w read_def parseKey_session r d)
qed

lemma session_write_remove_read:
  "fst (remove [''session'', p, s] (snd (write' now [''session'', p, s] v b))) = Inr ()
   \<and> fst (read [''session'', p, s]
        (snd (remove [''session'', p, s] (snd (write' now [''session'', p, s] v b)))))
     = Inl (NotFoundError (''Resource not found: '' @ join_slash [''session'', p, s]))"
  by (simp add: remove_session read_def parseKey_session select_session_deleted)

lemma stored_then_read:
  assumes "key_type (parseKey b key) = Some t" and "t = ''message'' \<or> t = ''part''"
    and "key_sessionID (parseKey b key) = Some s" and "s \<noteq> []"
    and "sessionDBs b (Some s) = Some db"
    and "select_storage (join_slash key) (disk b db) = Some row"
  shows "read key b = (Inr (row_data row), b)"
  using assms by (auto simp: read_def falsy_def getSessionDB_cached)

lemma missing_then_read:
  assumes "key_type (parseKey b key) = Some t" and "t = ''message'' \<or> t = ''part''"
    and "key_sessionID (parseKey b key) = Some s" and "s \<noteq> []"
    and "sessionDBs b (Some s) = Some db"
    and "select_storage (join_slash key) (disk b db) = None"
  shows "read key b = (Inl (NotFoundError (''Resource not found: '' @ join_slash key)), b)"
  using assms by (auto simp: read_def falsy_def getSessionDB_cached)

lemma remove_stored:
  assumes "key_type (parseKey b key) = Some t" and "t = ''message'' \<or> t = ''part''"
    and "key_sessionID (parseKey b key) = Some s" and "s \<noteq> []"
    and "sessionDBs b (Some s) = Some db"
  shows "remove key b =
     (Inr (), b\<lparr>disk := (disk b)(db :=
         filter (\<lambda>r. \<not> (row_key r = join_slash key
                          \<or> sql_like (join_slash key @ ''/%'') (row_key r))) (disk b db))\<rparr>)"
  using assms by (auto simp: remove_def falsy_def getSessionDB_cached Let_def)

lemma removed_then_read:
  assumes t: "key_type (parseKey b key) = Some t" "t = ''message'' \<or> t = ''part''"
    and sid: "key_sessionID (parseKey b key) = Some s" "s \<noteq> []"
    and h: "sessionDBs b (Some s) = Some db"
  shows "fst (remove key b) = Inr ()
     \<and> fst (read key (snd (remove key b)))
         = Inl (NotFoundError (''Resource not found: '' @ join_slash key))"
proof -
  define b' where "b' = b\<lparr>disk := (disk b)(db :=
         filter (\<lambda>r. \<not> (row_key r = join_slash key
                          \<or> sql_like (join_slash key @ ''/%'') (row_key r))) (disk b db))\<rparr>"
  have r: "remove key b = (Inr (), b')"
    unfolding b'_def using t sid h by (rule remove_stored)
  have "read key b' = (Inl (NotFoundError (''Resource not found: '' @ join_slash key)), b')"
  proof (rule missing_then_read)
    show "key_type (parseKey b' key) = Some t" using t(1) by (simp add: b'_def parseKey_disk)
    show "t = ''message'' \<or> t = ''part''" by fact
    show "key_sessionID (parseKey b' key) = Some s" using sid(1) by (simp add: b'_def parseKey_disk)
    show "s \<noteq> []" by fact
    show "sessionDBs b' (Some s) = Some db" using h by (simp add: b'_def)
    show "select_storage (join_slash key) (disk b' db) = None"
      by (auto simp: b'_def select_storage_def find_None_iff)
  qed
  then show ?thesis by (simp add: r)
qed

lemma write_message:
  assumes "getSessionDB (Some s)
             (b\<lparr>messageSessionCache := (messageSessionCache b)(Some m \<mapsto> Some s)\<rparr>)
           = Inr (db, b2)"
  shows "write' now [''message'', s, m] v b =
     (Inr (), b2\<lparr>disk := (disk b2)(db := upsert_storage now (join_slash [''message'', s, m])
                                   ''message'' v (disk b2 db))\<rparr>)"
  using assms by (simp add: write'_def parseKey_message)

lemma write_part:
  assumes "messageSessionCache b (Some m) = Some (Some s)" and "s \<noteq> []"
    and "getSessionDB (Some s) b = Inr (db, b2)"
  shows "write' now [''part'', m, p] v b =
     (Inr (), b2\<lparr>disk := (disk b2)(db := upsert_storage now (join_slash [''part'', m, p])
                                   ''part'' v (disk b2 db))\<rparr>)"
  using assms by (simp add: write'_def parseKey_part falsy_def)

text \<open>What a message write and a part write leave behind, when the session's database
  can be opened.\<close>

lemma message_written:
  assumes s: "s \<noteq> []" and o: "can_open b (Some s)"
  shows "fst (write' now [''message'', s, m] v b) = Inr ()
   \<and> messageSessionCache (snd (write' now [''message'', s, m] v b)) (Some m) = Some (Some s)
   \<and> baseDir (snd (write' now [''message'', s, m] v b)) = baseDir b
   \<and> dirs (snd (write' now [''message'', s, m] v b)) = dirs b
   \<and> refused (snd (write' now [''message'', s, m] v b)) = refused b
   \<and> (\<exists>db row. sessionDBs (snd (write' now [''message'', s, m] v b)) (Some s) = Some db
         \<and> (handle_current b (Some s) \<longrightarrow>
              files (snd (write' now [''message'', s, m] v b)) (dbPath b (Some s)) = Some db)
         \<and> select_storage (join_slash [''message'', s, m])
              (disk (snd (write' now [''message'', s, m] v b)) db) = Some row
         \<and> row_data row = v)"
proof -
  define b1 where "b1 = b\<lparr>messageSessionCache := (messageSessionCache b)(Some m \<mapsto> Some s)\<rparr>"
  have "can_open b1 (Some s)" using o by (simp add: b1_def can_open_cache)
  then obtain db b2 where g: "getSessionDB (Some s) b1 = Inr (db, b2)"
    by (auto simp: can_open_getSessionDB)
  define k where "k = join_slash [''message'', s, m]"
  define b3 where "b3 = b2\<lparr>disk := (disk b2)(db := upsert_storage now k ''message'' v (disk b2 db))\<rparr>"
  have w: "write' now [''message'', s, m] v b = (Inr (), b3)"
    unfolding b3_def k_def using g [unfolded b1_def] by (rule write_message)
  from select_upsert_storage [of k now "''message''" v "disk b2 db"]
  obtain row where row: "select_storage k (upsert_storage now k ''message'' v (disk b2 db)) = Some row"
    and d: "row_data row = v" by (elim exE conjE)
  have fr: "baseDir b2 = baseDir b" "dirs b2 = dirs b"
      "messageSessionCache b2 = messageSessionCache b1" "refused b2 = refused b"
    using getSessionDB_frame [OF g] by (simp_all add: b1_def)
  have h: "sessionDBs b3 (Some s) = Some db"
    using getSessionDB_handle [OF g] by (simp add: b3_def)
  have f: "handle_current b (Some s) \<longrightarrow> files b3 (dbPath b (Some s)) = Some db"
  proof
    assume "handle_current b (Some s)"
    then have "handle_current b1 (Some s)" by (simp add: b1_def handle_current_cache)
    from getSessionDB_file [OF this g] show "files b3 (dbPath b (Some s)) = Some db"
      by (simp add: b3_def b1_def dbPath_def)
  qed
  have sel: "select_storage (join_slash [''message'', s, m]) (disk b3 db) = Some row"
    using row by (simp add: b3_def k_def)
  have c: "messageSessionCache b3 (Some m) = Some (Some s)"
    using fr(3) by (simp add: b3_def b1_def)
  show ?thesis
    using h f sel d c fr by (auto simp: w b3_def)
qed

lemma part_written:
  assumes c: "messageSessionCache b (Some m) = Some (Some s)" and s: "s \<noteq> []"
    and o: "can_open b (Some s)"
  shows "fst (write' now [''part'', m, p] v b) = Inr ()
   \<and> messageSessionCache (snd (write' now [''part'', m, p] v b)) (Some m) = Some (Some s)
   \<and> (\<exists>db row. sessionDBs (snd (write' now [''part'', m, p] v b)) (Some s) = Some db
         \<and> (handle_current b (Some s) \<longrightarrow>
              files (snd (write' now [''part'', m, p] v b)) (dbPath b (Some s)) = Some db)
         \<and> select_storage (join_slash [''part'', m, p])
              (disk (snd (write' now [''part'', m, p] v b)) db) = Some row
         \<and> row_data row = v)"
proof -
  from o obtain db b2 where g: "getSessionDB (Some s) b = Inr (db, b2)"
    by (auto simp: can_open_getSessionDB)
  define k where "k = join_slash [''part'', m, p]"
  define b3 where "b3 = b2\<lparr>disk := (disk b2)(db := upsert_storage now k ''part'' v (disk b2 db))\<rparr>"
  have w: "write' now [''part'', m, p] v b = (Inr (), b3)"
    unfolding b3_def k_def using c s g by (rule write_part)
  from select_upsert_storage [of k now "''part''" v "disk b2 db"]
  obtain row where row: "select_storage k (upsert_storage now k ''part'' v (disk b2 db)) = Some row"
    and d: "row_data row = v" by (elim exE conjE)
  have c3: "messageSessionCache b3 (Some m) = Some (Some s)"
    using getSessionDB_frame [OF g] c by (simp add: b3_def)
  have h: "sessionDBs b3 (Some s) = Some db"
    using getSessionDB_handle [OF g] by (simp add: b3_def)
  have f: "handle_current b (Some s) \<longrightarrow> files b3 (dbPath b (Some s)) = Some db"
  proof
    assume "handle_current b (Some s)"
    from getSessionDB_file [OF this g] show "files b3 (dbPath b (Some s)) = Some db"
      by (simp add: b3_def)
  qed
  have sel: "select_storage (join_slash [''part'', m, p]) (disk b3 db) = Some row"
    using row by (simp add: b3_def k_def)
  show ?thesis
    using h f sel d c3 by (auto simp: w)
qed

lemma message_round_trip:
  assumes s: "s \<noteq> []" and o: "can_open b (Some s)"
  shows "fst (write' now [''message'', s, m] v b) = Inr ()
   \<and> fst (read [''message'', s, m] (snd (write' now [''message'', s, m] v b))) = Inr v"
proof -
  define b3 where "b3 = snd (write' now [''message'', s, m] v b)"
  from message_written [OF s o, of now m v]
  obtain db row where w: "fst (write' now [''message'', s, m] v b) = Inr ()"
    and h: "sessionDBs b3 (Some s) = Some db"
    and sel: "select_storage (join_slash [''message'', s, m]) (disk b3 db) = Some row"
    and d: "row_data row = v"
    unfolding b3_def by (elim exE conjE)
  have "read [''message'', s, m] b3 = (Inr (row_data row), b3)"
  proof (rule stored_then_read)
    show "key_type (parseKey b3 [''message'', s, m]) = Some ''message''"
      by (simp add: parseKey_message)
    show "''message'' = ''message'' \<or> ''message'' = ''part''" by simp
    show "key_sessionID (parseKey b3 [''message'', s, m]) = Some s"
      by (simp add: parseKey_message)
    show "s \<noteq> []" by fact
    show "sessionDBs b3 (Some s) = Some db" by fact
    show "select_storage (join_slash [''message'', s, m]) (disk b3 db) = Some row" by fact
  qed
  then show ?thesis using w d by (simp add: b3_def)
qed

lemma part_round_trip:
  assumes c: "messageSessionCache b (Some m) = Some (Some s)" and s: "s \<noteq> []"
    and o: "can_open b (Some s)"
  shows "fst (write' now [''part'', m, p] v b) = Inr ()
   \<and> fst (read [''part'', m, p] (snd (write' now [''part'', m, p] v b))) = Inr v"
proof -
  define b3 where "b3 = snd (write' now [''part'', m, p] v b)"
  from part_written [OF c s o, of now p v]
  obtain db row where w: "fst (write' now [''part'', m, p] v b) = Inr ()"
    and c3: "messageSessionCache b3 (Some m) = Some (Some s)"
    and h: "sessionDBs b3 (Some s) = Some db"
    and sel: "select_storage (join_slash [''part'', m, p]) (disk b3 db) = Some row"
    and d: "row_data row = v"
    unfolding b3_def by (elim exE conjE)
  have "read [''part'', m, p] b3 = (Inr (row_data row), b3)"
  proof (rule stored_then_read)
    show "key_type (parseKey b3 [''part'', m, p]) = Some ''part''" by (simp add: parseKey_part)
    show "''part'' = ''message'' \<or> ''part'' = ''part''" by simp
    show "key_sessionID (parseKey b3 [''part'', m, p]) = Some s" by (simp add: parseKey_part c3)
    show "s \<noteq> []" by fact
    show "sessionDBs b3 (Some s) = Some db" by fact
    show "select_storage (join_slash [''part'', m, p]) (disk b3 db) = Some row" by fact
  qed
  then show ?thesis using w d by (simp add: b3_def)
qed

lemma message_write_remove_read:
  assumes s: "s \<noteq> []" and o: "can_open b (Some s)"
  shows "fst (remove [''message'', s, m] (snd (write' now [''message'', s, m] v b))) = Inr ()
   \<and> fst (read [''message'', s, m]
        (snd (remove [''message'', s, m] (snd (write' now [''message'', s, m] v b)))))
     = Inl (NotFoundError (''Resource not found: '' @ join_slash [''message'', s, m]))"
proof -
  define b3 where "b3 = snd (write' now [''message'', s, m] v b)"
  from message_written [OF s o, of now m v]
  obtain db where h: "sessionDBs b3 (Some s) = Some db"
    unfolding b3_def by (elim exE conjE)
  have "fst (remove [''message'', s, m] b3) = Inr ()
     \<and> fst (read [''message'', s, m] (snd (remove [''message'', s, m] b3)))
         = Inl (NotFoundError (''Resource not found: '' @ join_slash [''message'', s, m]))"
  proof (rule removed_then_read)
    show "key_type (parseKey b3 [''message'', s, m]) = Some ''message''"
      by (simp add: parseKey_message)
    show "''message'' = ''message'' \<or> ''message'' = ''part''" by simp
    show "key_sessionID (parseKey b3 [''message'', s, m]) = Some s"
      by (simp add: parseKey_message)
    show "s \<noteq> []" by fact
    show "sessionDBs b3 (Some s) = Some db" by fact
  qed
  then show ?thesis by (simp add: b3_def)
qed

lemma part_write_remove_read:
  assumes c: "messageSessionCache b (Some m) = Some (Some s)" and s: "s \<noteq> []"
    and o: "can_open b (Some s)"
  shows "fst (remove [''part'', m, p] (snd (write' now [''part'', m, p] v b))) = Inr ()
   \<and> fst (read [''part'', m, p]
        (snd (remove [''part'', m, p] (snd (write' now [''part'', m, p] v b)))))
     = Inl (NotFoundError (''Resource not found: '' @ join_slash [''part'', m, p]))"
proof -
  define b3 where "b3 = snd (write' now [''part'', m, p] v b)"
  from part_written [OF c s o, of now p v]
  obtain db where c3: "messageSessionCache b3 (Some m) = Some (Some s)"
    and h: "sessionDBs b3 (Some s) = Some db"
    unfolding b3_def by (elim exE conjE)
  have "fst (remove [''part'', m, p] b3) = Inr ()
     \<and> fst (read [''part'', m, p] (snd (remove [''part'', m, p] b3)))
         = Inl (NotFoundError (''Resource not found: '' @ join_slash [''part'', m, p]))"
  proof (rule removed_then_read)
    show "key_type (parseKey b3 [''part'', m, p]) = Some ''part''" by (simp add: parseKey_part)
    show "''part'' = ''message'' \<or> ''part'' = ''part''" by simp
    show "key_sessionID (parseKey b3 [''part'', m, p]) = Some s" by (simp add: parseKey_part c3)
    show "s \<noteq> []" by fact
    show "sessionDBs b3 (Some s) = Some db" by fact
  qed
  then show ?thesis by (simp add: b3_def)
qed

lemma session_remove_cascades:
  assumes s: "s \<noteq> []" and d: "creatable b (dbPath b (Some s))"
  shows "files (snd (remove [''session'', p, s] b)) (dbPath b (Some s)) = None
   \<and> fst (read [''message'', s, m] (snd (remove [''session'', p, s] b)))
       = Inl (NotFoundError (''Resource not found: '' @ join_slash [''message'', s, m]))"
proof -
  define b1 where "b1 = snd (remove [''session'', p, s] b)"
  have f: "files b1 (dbPath b1 (Some s)) = None" and h: "sessionDBs b1 (Some s) = None"
    by (simp_all add: b1_def remove_session dbPath_def)
  have "can_open b1 (Some s)"
    using d by (simp add: can_open_def creatable_def b1_def remove_session dbPath_def)
  then obtain db b2 where g: "getSessionDB (Some s) b1 = Inr (db, b2)"
    by (auto simp: can_open_getSessionDB)
  have e: "disk b2 db = []"
    using h f g by (rule getSessionDB_fresh)
  have "fst (read [''message'', s, m] b1)
       = Inl (NotFoundError (''Resource not found: '' @ join_slash [''message'', s, m]))"
    using s by (simp add: read_def parseKey_message falsy_def g e select_storage_def)
  moreover have "files b1 (dbPath b (Some s)) = None"
    by (simp add: b1_def remove_session)
  ultimately show ?thesis by (simp add: b1_def)
qed

lemma unknown_type_throws:
  assumes "js_index k 0 \<noteq> Some ''session''" and "js_index k 0 \<noteq> Some ''message''"
    and "js_index k 0 \<noteq> Some ''part''" and "js_index k 0 \<noteq> Some ''session_diff''"
  shows "write' now k v b = (Inl (Error (''Unknown key type: '' @ template (js_index k 0))), b)
    \<and> read k b = (Inl (Error (''Unknown key type: '' @ template (js_index k 0))), b)
    \<and> remove k b = (Inr (), b)"
proof -
  have "parseKey b k = \<lparr>key_type = js_index k 0, key_sessionID = None, key_id = None\<rparr>"
    using assms by (simp add: parseKey_def Let_def)
  then show ?thesis
    using assms by (simp add: write'_def read_def remove_def)
qed

subsection \<open>Where the database file of a session lies\<close>

lemma slash_prefixes_append:
  "slash_prefixes (a @ b) = slash_prefixes a @ map ((@) a) (slash_prefixes b)"
  by (induction a) (simp_all add: comp_def)

lemma slash_prefixes_no_slash: "CHR ''/'' \<notin> set seg \<Longrightarrow> slash_prefixes seg = []"
  by (induction seg) auto

lemma slash_prefixes_file:
  assumes "CHR ''/'' \<notin> set seg"
  shows "slash_prefixes (x @ CHR ''/'' # seg) = slash_prefixes x @ [x]"
  using assms by (simp add: slash_prefixes_append slash_prefixes_no_slash)

lemma dirname_file:
  assumes "CHR ''/'' \<notin> set seg" and "x \<noteq> []"
  shows "dirname (x @ CHR ''/'' # seg) = x"
proof -
  have "ancestors (x @ CHR ''/'' # seg)
      = map (\<lambda>p. if p = [] then ''/'' else p) (slash_prefixes x) @ [x]"
    using assms by (simp add: ancestors_def slash_prefixes_file)
  then show ?thesis
    by (cases "map (\<lambda>p. if p = [] then ''/'' else p) (slash_prefixes x)")
      (simp_all add: dirname_def)
qed

lemma join_slash_snoc: "xs \<noteq> [] \<Longrightarrow> join_slash (xs @ [y]) = join_slash xs @ CHR ''/'' # y"
  by (induction xs rule: join_slash.induct) simp_all

lemma db_file_segment:
  assumes "CHR ''/'' \<notin> set s"
  shows "wf_key [''sessions'', s @ ''.db'']"
proof -
  have "s @ ''.db'' \<noteq> ''.''" and "s @ ''.db'' \<noteq> ''..''"
    by (auto simp: append_eq_Cons_conv)
  then show ?thesis
    using assms by (simp add: wf_key_def wf_segment_def)
qed

lemma dbPath_in_sessionsDir:
  assumes "CHR ''/'' \<notin> set s"
  shows "dbPath b (Some s) = sessionsDir b @ CHR ''/'' # s @ ''.db''"
    and "sessionsDir b \<noteq> []"
proof -
  let ?pre = "if baseDir b \<noteq> [] \<and> hd (baseDir b) = CHR ''/'' then ''/'' else []"
  have 1: "dbPath b (Some s)
      = ?pre @ join_slash (dir_stack (baseDir b) @ [''sessions'', s @ ''.db''])"
    using path_join_wf [OF db_file_segment [OF assms], of "baseDir b"]
    by (simp add: dbPath_def template_def)
  have "wf_key [''sessions'']"
    by (simp add: wf_key_def wf_segment_def)
  from path_join_wf [OF this, of "baseDir b"]
  have 2: "sessionsDir b = ?pre @ join_slash (dir_stack (baseDir b) @ [''sessions''])"
    by (simp add: sessionsDir_def)
  have "join_slash (dir_stack (baseDir b) @ [''sessions'', s @ ''.db''])
      = join_slash ((dir_stack (baseDir b) @ [''sessions'']) @ [s @ ''.db''])"
    by simp
  also have "\<dots> = join_slash (dir_stack (baseDir b) @ [''sessions'']) @ CHR ''/'' # s @ ''.db''"
    by (rule join_slash_snoc) simp
  finally show "dbPath b (Some s) = sessionsDir b @ CHR ''/'' # s @ ''.db''"
    using 1 2 by simp
  have "join_slash (dir_stack (baseDir b) @ [''sessions'']) \<noteq> []"
    by (rule join_slash_nonempty_parts) simp_all
  then show "sessionsDir b \<noteq> []"
    using 2 by simp
qed

lemma dbPath_dirname:
  assumes "CHR ''/'' \<notin> set s"
  shows "dirname (dbPath b (Some s)) = sessionsDir b"
proof -
  have "CHR ''/'' \<notin> set (s @ ''.db'')"
    using assms by simp
  then show ?thesis
    using dbPath_in_sessionsDir [OF assms, of b] dirname_file [of "s @ ''.db''" "sessionsDir b"]
    by simp
qed

lemma usable_session_creatable:
  assumes "usable_session b s"
  shows "creatable b (dbPath b (Some s))" and "can_open b (Some s)" and "s \<noteq> []"
  using assms by (simp_all add: usable_session_def dbPath_dirname can_open_def creatable_def)

subsection \<open>The database files after an operation\<close>

lemma created_cache:
  "created (b\<lparr>messageSessionCache := c\<rparr>) x = created b x"
  by (simp add: created_def dbPath_def creatable_def split: option.splits)

lemma resolved_cases:
  assumes "resolved b key = Some sid"
  shows "key_type (parseKey b key) = Some ''message'' \<or> key_type (parseKey b key) = Some ''part''"
    and "\<not> falsy (key_sessionID (parseKey b key))" and "sid = key_sessionID (parseKey b key)"
  using assms by (auto simp: resolved_def Let_def split: if_splits)

lemma read_state:
  "snd (read key b) =
     (case resolved b key of
        None \<Rightarrow> b
      | Some sid \<Rightarrow> (case getSessionDB sid b of Inl e \<Rightarrow> b | Inr (db, b') \<Rightarrow> b'))"
  by (auto simp: read_def resolved_def Let_def split: option.splits prod.splits sum.splits)














lemma exec_state:
  "snd (exec now (Read key) b) = snd (read key b)"
  "snd (exec now (Write key v) b) = snd (write' now key v b)"
  "snd (exec now (Update key fn) b) = snd (update now key fn b)"
  "snd (exec now (Remove key) b) = snd (remove key b)"
  "snd (exec now (List prefix) b) = snd (list prefix b)"
  by (simp_all add: exec_def split: prod.splits sum.splits)

subsection \<open>What the operations leave as it is\<close>

lemma opened_environment:
  "environment (case getSessionDB sid b of Inl e \<Rightarrow> b | Inr (db, b') \<Rightarrow> b') = environment b"
proof (cases "getSessionDB sid b")
  case (Inl e)
  then show ?thesis by simp
next
  case (Inr r)
  obtain db b' where r: "r = (db, b')" by (cases r)
  have g: "getSessionDB sid b = Inr (db, b')" using Inr r by simp
  show ?thesis using getSessionDB_frame [OF g] by (simp add: g environment_def)
qed

lemma read_environment: "environment (snd (read key b)) = environment b"
proof (cases "resolved b key")
  case None
  then show ?thesis by (simp add: read_state)
next
  case (Some sid)
  then show ?thesis using opened_environment [where sid = sid and b = b] by (simp add: read_state)
qed

lemma write_environment: "environment (snd (write' now key v b)) = environment b"
proof (cases "js_index key 0 = Some ''message''")
  case True
  define b1 where "b1 = b\<lparr>messageSessionCache :=
      (messageSessionCache b)(key_id (parseKey b key) \<mapsto> js_index key 1)\<rparr>"
  have "environment (snd (write' now key v b)) =
      environment (case getSessionDB (js_index key 1) b1 of Inl e \<Rightarrow> b1 | Inr (db, b') \<Rightarrow> b')"
    using True
    by (simp add: write'_def Let_def parseKey_type_message parseKey_type_session
        parseKey_message_session b1_def environment_def split: sum.splits prod.splits)
  also have "\<dots> = environment b1"
    by (rule opened_environment)
  finally show ?thesis by (simp add: b1_def environment_def)
next
  case False
  then have n: "key_type (parseKey b key) \<noteq> Some ''message''"
    by (simp add: parseKey_type_message)
  have "environment (snd (write' now key v b)) =
     environment (case resolved b key of
              None \<Rightarrow> b
            | Some sid \<Rightarrow> (case getSessionDB sid b of Inl e \<Rightarrow> b | Inr (db, b') \<Rightarrow> b'))"
    using n
    by (auto simp: write'_def resolved_def environment_def Let_def
        split: option.splits prod.splits sum.splits)
  then show ?thesis
    using opened_environment [where b = b] by (cases "resolved b key") simp_all
qed

lemma remove_environment: "environment (snd (remove key b)) = environment b"
proof (cases "key_type (parseKey b key) = Some ''session''")
  case True
  then show ?thesis by (simp add: remove_def Let_def environment_def)
next
  case False
  then have "environment (snd (remove key b)) =
     environment (case resolved b key of
              None \<Rightarrow> b
            | Some sid \<Rightarrow> (case getSessionDB sid b of Inl e \<Rightarrow> b | Inr (db, b') \<Rightarrow> b'))"
    by (auto simp: remove_def resolved_def environment_def Let_def
        split: option.splits prod.splits sum.splits)
  then show ?thesis
    using opened_environment [where b = b] by (cases "resolved b key") simp_all
qed

lemma list_environment: "environment (snd (list prefix b)) = environment b"
proof (cases "js_index prefix 0 = Some ''message'' \<or> js_index prefix 0 = Some ''part''")
  case True
  then have "snd (list prefix b) =
      (case getSessionDB (js_index prefix 1) b of Inl e \<Rightarrow> b | Inr (db, b') \<Rightarrow> b')"
    by (auto simp: list_def Let_def split: sum.splits prod.splits)
  then show ?thesis
    using opened_environment [where b = b and sid = "js_index prefix 1"] by simp
next
  case False
  then show ?thesis by (simp add: list_def Let_def)
qed

lemma update_environment: "environment (snd (update now key fn b)) = environment b"
proof (cases "read key b")
  case (Pair res b1)
  then have "b1 = snd (read key b)" by simp
  then have e: "environment b1 = environment b"
    using read_environment [of key b] by simp
  show ?thesis
  proof (cases res)
    case (Inl e)
    then show ?thesis using Pair e by (simp add: update_def)
  next
    case (Inr content)
    have "snd (update now key fn b) = snd (write' now key (fn content) b1)"
      using Pair Inr by (simp add: update_def split: prod.splits sum.splits)
    then show ?thesis using write_environment [of now key "fn content" b1] e by simp
  qed
qed

lemma exec_environment: "environment (snd (exec now op b)) = environment b"
  by (cases op)
    (simp_all add: exec_state read_environment write_environment update_environment
      remove_environment list_environment)

lemma usable_session_environment:
  "environment b' = environment b \<Longrightarrow> usable_session b' s = usable_session b s"
  by (simp add: environment_def usable_session_def sessionsDir_def dbPath_def)

text \<open>No operation of the facade changes which session IDs the backend can serve.\<close>

lemma usable_session_exec: "usable_session (snd (exec now op b)) s = usable_session b s"
  using exec_environment [of now op b] by (rule usable_session_environment)
lemma slash_prefixes_shorter: "p \<in> set (slash_prefixes x) \<Longrightarrow> length p < length x"
  by (induction x arbitrary: p) (auto split: if_splits)

lemma ancestors_shorter:
  assumes "p \<in> set (ancestors x)"
  shows "length p \<le> length x"
proof -
  from assms obtain q where q: "q \<in> set (slash_prefixes x)" and p: "p = (if q = [] then ''/'' else q)"
    by (auto simp: ancestors_def)
  have "length q < length x"
    using q by (rule slash_prefixes_shorter)
  then show ?thesis
    using p by (cases "q = []") (auto simp: Suc_le_eq)
qed

text \<open>On a new backend every non-empty session ID without \<open>/\<close> whose database path the
  platform takes can be served; by \<open>usable_session_exec\<close> it can be served ever after.\<close>

lemma new_backend_usable:
  fixes platform :: "string \<Rightarrow> bool" and projectDir s :: string
  defines "b \<equiv> (new_backend platform projectDir :: 'v backend)"
  assumes "s \<noteq> []" and "CHR ''/'' \<notin> set s" and "\<not> platform (dbPath b (Some s))"
  shows "usable_session b s"
proof -
  have d: "dirs b = {''.'', ''/''} \<union> set (ancestors (sessionsDir b)) \<union> {sessionsDir b}"
    and r: "refused b = platform"
    by (simp_all add: b_def new_backend_def sessionsDir_def Let_def)
  have p: "dbPath b (Some s) = sessionsDir b @ CHR ''/'' # s @ ''.db''"
    and n: "sessionsDir b \<noteq> []"
    using dbPath_in_sessionsDir [OF assms(3), of b] by simp_all
  have l: "length (sessionsDir b) < length (dbPath b (Some s))" "1 < length (dbPath b (Some s))"
    using n by (simp_all add: p)
  have "dbPath b (Some s) \<notin> set (ancestors (sessionsDir b))"
    using ancestors_shorter [of "dbPath b (Some s)" "sessionsDir b"] l(1) by auto
  moreover have "dbPath b (Some s) \<noteq> ''.''" "dbPath b (Some s) \<noteq> ''/''"
    "dbPath b (Some s) \<noteq> sessionsDir b"
    using l by auto
  ultimately have "dbPath b (Some s) \<notin> dirs b"
    by (simp add: d)
  moreover have "sessionsDir b \<in> dirs b"
    by (simp add: d)
  ultimately show ?thesis
    using assms(2-4) r by (simp add: usable_session_def)
qed

lemma new_backend_handle_current: "handle_current (new_backend platform projectDir) sid"
  by (simp add: handle_current_def new_backend_def Let_def)

subsection \<open>The example backends\<close>

lemmas eval_defs = write'_def read_def remove_def list_def update_def exec_def parseKey_def
  getSessionDB_def creatable_def dbPath_def dirname_def ancestors_def path_join_def
  path_normalize_def normalizeString_def normalize_step_def template_def falsy_def
  select_storage_def select_session_def js_index_def posix_limits_def Let_def

lemma fresh_backend_value:
  "fresh_backend =
     \<lparr>baseDir = ''/proj/.opencode'',
      dirs = {''.'', ''/'', ''/proj'', ''/proj/.opencode'', ''/proj/.opencode/sessions''},
      sessionsMetaDB = [],
      files = [''/proj/.opencode/sessions.db'' \<mapsto> 0],
      disk = (\<lambda>db. []), next_db = 1,
      sessionDBs = Map.empty, messageSessionCache = Map.empty,
      refused = posix_limits\<rparr>"
  by (auto simp: fresh_backend_def new_backend_def eval_defs)

lemma posix_limits_sX: "\<not> posix_limits ''/proj/.opencode/sessions/sX.db''"
  by (simp add: posix_limits_def)

lemma after_message_value:
  "after_message =
     \<lparr>baseDir = ''/proj/.opencode'',
      dirs = {''.'', ''/'', ''/proj'', ''/proj/.opencode'', ''/proj/.opencode/sessions''},
      sessionsMetaDB = [],
      files = [''/proj/.opencode/sessions.db'' \<mapsto> 0,
               ''/proj/.opencode/sessions/sX.db'' \<mapsto> 1],
      disk = (\<lambda>db. [])(1 := [\<lparr>row_key = ''message/sX/mA'', row_type = ''message'',
                                 row_data = ''info'', row_created_at = 1,
                                 row_updated_at = 1\<rparr>]),
      next_db = 2,
      sessionDBs = [Some ''sX'' \<mapsto> 1], messageSessionCache = [Some ''mA'' \<mapsto> Some ''sX''],
      refused = posix_limits\<rparr>"
  by (simp add: after_message_def fresh_backend_value write'_def parseKey_def getSessionDB_def
      creatable_def dbPath_def dirname_def ancestors_def path_join_def path_normalize_def
      normalizeString_def normalize_step_def template_def js_index_def posix_limits_sX
      Let_def numeral_2_eq_2)

lemma after_part_value:
  "after_part =
     \<lparr>baseDir = ''/proj/.opencode'',
      dirs = {''.'', ''/'', ''/proj'', ''/proj/.opencode'', ''/proj/.opencode/sessions''},
      sessionsMetaDB = [],
      files = [''/proj/.opencode/sessions.db'' \<mapsto> 0,
               ''/proj/.opencode/sessions/sX.db'' \<mapsto> 1],
      disk = (\<lambda>db. [])(1 := [\<lparr>row_key = ''message/sX/mA'', row_type = ''message'',
                                 row_data = ''info'', row_created_at = 1,
                                 row_updated_at = 1\<rparr>,
                               \<lparr>row_key = ''part/mA/p0'', row_type = ''part'',
                                 row_data = ''text'', row_created_at = 2,
                                 row_updated_at = 2\<rparr>]),
      next_db = 2,
      sessionDBs = [Some ''sX'' \<mapsto> 1], messageSessionCache = [Some ''mA'' \<mapsto> Some ''sX''],
      refused = posix_limits\<rparr>"
  by (simp add: after_part_def after_message_value write'_def parseKey_def getSessionDB_def
      falsy_def js_index_def Let_def)

lemma usable_session_frame:
  assumes "baseDir b' = baseDir b" and "dirs b' = dirs b" and "refused b' = refused b"
  shows "usable_session b' s = usable_session b s"
  using assms by (simp add: usable_session_def sessionsDir_def dbPath_def)


text \<open>The cascade from any backend: a message write for session \<open>s\<close>, then the remove
  of a session key of \<open>s\<close>.\<close>

lemma message_then_session_remove:
  fixes b :: "'v backend" and s m p :: string and t1 :: int and v :: 'v
  assumes u: "usable_session b s"
  defines "b1 \<equiv> snd (write' t1 [''message'', s, m] v b)"
  defines "b2 \<equiv> snd (remove [''session'', p, s] b1)"
  shows "fst (write' t1 [''message'', s, m] v b) = Inr ()
    \<and> fst (read [''message'', s, m] b1) = Inr v
    \<and> fst (remove [''session'', p, s] b1) = Inr ()
    \<and> files b2 (dbPath b (Some s)) = None
    \<and> fst (read [''message'', s, m] b2)
           = Inl (NotFoundError (''Resource not found: '' @ join_slash [''message'', s, m]))"
proof (intro conjI)
  note c = usable_session_creatable [OF u]
  have fr: "baseDir b1 = baseDir b" "dirs b1 = dirs b" "refused b1 = refused b"
    using message_written [OF c(3) c(2), of t1 m v] by (simp_all add: b1_def)
  have u1: "usable_session b1 s"
    using u usable_session_frame [OF fr] by simp
  have p: "dbPath b1 (Some s) = dbPath b (Some s)"
    using fr(1) by (rule dbPath_frame)
  show "fst (write' t1 [''message'', s, m] v b) = Inr ()"
    using message_round_trip [OF c(3) c(2), of t1 m v] by simp
  show "fst (read [''message'', s, m] b1) = Inr v"
    using message_round_trip [OF c(3) c(2), of t1 m v] by (simp add: b1_def)
  show "fst (remove [''session'', p, s] b1) = Inr ()"
    by (simp add: remove_session)
  show "files b2 (dbPath b (Some s)) = None"
    using session_remove_cascades [OF c(3) usable_session_creatable(1) [OF u1], of p m]
    by (simp add: b2_def p)
  show "fst (read [''message'', s, m] b2)
           = Inl (NotFoundError (''Resource not found: '' @ join_slash [''message'', s, m]))"
    using session_remove_cascades [OF c(3) usable_session_creatable(1) [OF u1], of p m]
    by (simp add: b2_def)
qed

lemma example_dbPath:
  "dbPath fresh_backend (Some ''sX'') = ''/proj/.opencode/sessions/sX.db''"
    "dbPath after_part (Some ''sX'') = ''/proj/.opencode/sessions/sX.db''"
  by (simp_all add: fresh_backend_value after_part_value dbPath_def path_join_def
      path_normalize_def normalizeString_def normalize_step_def template_def)





lemma example_usable:
  "usable_session fresh_backend ''sX''" "usable_session after_message ''sX''"
  "usable_session after_part ''sX''"
  by (simp_all add: usable_session_def sessionsDir_def dbPath_def path_join_def
      path_normalize_def normalizeString_def normalize_step_def template_def posix_limits_sX
      fresh_backend_value after_message_value after_part_value)


lemma example_cache:
  "messageSessionCache after_message (Some ''mA'') = Some (Some ''sX'')"
  "messageSessionCache after_part (Some ''mA'') = Some (Some ''sX'')"
  by (simp_all add: after_message_value after_part_value)

lemma example_unknown_type:
  "js_index [''project'', ''p1''] 0 \<noteq> Some ''session''
   \<and> js_index [''project'', ''p1''] 0 \<noteq> Some ''message''
   \<and> js_index [''project'', ''p1''] 0 \<noteq> Some ''part''
   \<and> js_index [''project'', ''p1''] 0 \<noteq> Some ''session_diff''"
  by simp

section \<open>The claims about the storage engine\<close>

text \<open>
  Claim C3 (\<open>list\<close> returns the written keys under a prefix) fails on its own example.
  After \<open>write(["message","sX","mA"], _)\<close> and \<open>write(["part","mA","p0"], _)\<close> on a new
  backend the part is stored (it reads back, from session \<open>sX\<close>'s database), and
  \<open>list(["message","sX"])\<close> returns the message key, but \<open>list(["part","mA"])\<close> returns
  the empty list: \<open>list\<close> takes the second segment of the prefix, here the message ID,
  as the session ID and looks in the database of a session named \<open>mA\<close>.
\<close>

theorem list_part_prefix_misses_written_part:
  "fst (read [''part'', ''mA'', ''p0''] after_part) = Inr ''text''
   \<and> fst (list [''message'', ''sX''] after_part)
       = Inr [[Some ''message'', Some ''sX'', Some ''mA'']]
   \<and> fst (list [''part'', ''mA''] after_part) = Inr []"
  by (simp add: after_part_value eval_defs)




text \<open>
  Claim C5 (a \<open>session_diff\<close> write succeeds, lands in the metadata database and reads
  back) fails for every session ID, value and backend: \<open>parseKey\<close> classifies the key,
  but neither \<open>write\<close> nor \<open>read\<close> has a branch for the type, so both throw
  \<open>Unknown key type: session_diff\<close> and the \<open>sessions\<close> table stays as it was.
\<close>

theorem session_diff_write_throws:
  "write' now [''session_diff'', s] v b = (Inl (Error ''Unknown key type: session_diff''), b)
   \<and> read [''session_diff'', s] b = (Inl (Error ''Unknown key type: session_diff''), b)
   \<and> sessionsMetaDB (snd (write' now [''session_diff'', s] v b)) = sessionsMetaDB b"
  by (simp add: write'_def read_def parseKey_def template_def)

text \<open>
  Claim C6 (an operation on a part key whose message is not in the in-memory map fails
  with the tagged error \<open>SessionUnknown\<close>) fails in the error it names: on a new backend
  the write of a part throws a plain \<open>Error\<close>, which carries a message and no tag. The
  backend has no error named \<open>SessionUnknown\<close>; its one named error is \<open>NotFoundError\<close>.
\<close>

theorem part_write_error_is_untagged:
  "messageSessionCache fresh_backend (Some ''mA'') = None
   \<and> fst (write' 1 [''part'', ''mA'', ''p0''] ''text'' fresh_backend)
       = Inl (Error ''Cannot write part: session unknown for message mA'')
   \<and> error_name (Error ''Cannot write part: session unknown for message mA'') = None
   \<and> error_name (NotFoundError ''Resource not found: part/mA/p0'') = Some ''NotFoundError''"
  by (simp add: fresh_backend_value write'_def parseKey_part falsy_def template_def
      error_name_def)

text \<open>
  Claim C6, amended: when the in-memory map has no entry for the message ID of a part
  key, every operation on the key throws a plain, untagged \<open>Error\<close> and leaves the
  backend as it was. The message is \<open>Cannot read part: session unknown\<close> for \<open>read\<close> and
  for \<open>update\<close>, which fails in its read, \<open>Cannot write part: session unknown for message\<close>
  followed by the message ID for \<open>write\<close>, and \<open>Cannot remove part: session unknown\<close> for
  \<open>remove\<close>.
\<close>

theorem part_without_message_fails:
  assumes "messageSessionCache b (Some m) = None"
  shows "read [''part'', m, p] b = (Inl (Error ''Cannot read part: session unknown''), b)
   \<and> write' now [''part'', m, p] v b
       = (Inl (Error (''Cannot write part: session unknown for message '' @ m)), b)
   \<and> update now [''part'', m, p] fn b
       = (Inl (Error ''Cannot read part: session unknown''), b)
   \<and> remove [''part'', m, p] b = (Inl (Error ''Cannot remove part: session unknown''), b)
   \<and> error_name (Error text) = None"
  using assms
  by (simp add: read_def write'_def update_def remove_def parseKey_part falsy_def template_def
      error_name_def)

theorem part_without_message_fails_witness:
  "messageSessionCache fresh_backend (Some ''mA'') = None
   \<and> read [''part'', ''mA'', ''p0''] fresh_backend
       = (Inl (Error ''Cannot read part: session unknown''), fresh_backend)
   \<and> remove [''part'', ''mA'', ''p0''] fresh_backend
       = (Inl (Error ''Cannot remove part: session unknown''), fresh_backend)
   \<and> update 1 [''part'', ''mA'', ''p0''] (\<lambda>x. x) fresh_backend
       = (Inl (Error ''Cannot read part: session unknown''), fresh_backend)"
proof -
  have c: "messageSessionCache fresh_backend (Some ''mA'') = None"
    by (simp add: fresh_backend_value)
  show ?thesis
    using c part_without_message_fails [OF c, of "''p0''" 1 "''text''" "\<lambda>x. x" "''x''"]
    by simp
qed




text \<open>
  Claim C8, as stated for every key, fails: for a key of a type the backend does not
  know (\<open>project\<close> is one of the key types of the specification) the write throws
  \<open>Unknown key type\<close>, the remove does nothing, and the read throws \<open>Unknown key type\<close>
  again, not \<open>NotFoundError\<close>.
\<close>

theorem unknown_key_type_is_not_NotFound:
  "fst (write' 1 [''project'', ''p1''] ''info'' fresh_backend)
       = Inl (Error ''Unknown key type: project'')
   \<and> fst (remove [''project'', ''p1'']
          (snd (write' 1 [''project'', ''p1''] ''info'' fresh_backend))) = Inr ()
   \<and> fst (read [''project'', ''p1'']
          (snd (remove [''project'', ''p1'']
             (snd (write' 1 [''project'', ''p1''] ''info'' fresh_backend)))))
       = Inl (Error ''Unknown key type: project'')"
  by (simp add: write'_def read_def remove_def parseKey_def template_def)

text \<open>
  Claim C8, amended: for every session key, for every message key whose session ID the
  backend can serve (\<open>usable_session\<close>: non-empty, without \<open>/\<close>, its database file
  creatable in the \<open>sessions\<close> directory) and for every part key whose message ID the
  in-memory map sends to such a session ID, the write and the remove of the key succeed
  and the read that follows fails with \<open>NotFoundError\<close>. For such a session ID \<open>s\<close>:
  after a message write for \<open>s\<close>, which reads back, the remove of a session key of \<open>s\<close>
  unlinks the session's database file and the read of the message fails with
  \<open>NotFoundError\<close>; and so does, after the remove of a session key of \<open>s\<close> from any
  backend, the read of any message of \<open>s\<close>, whatever was written before. For a key whose
  type is none of \<open>session\<close>, \<open>message\<close>, \<open>part\<close> and \<open>session_diff\<close> the write and the
  read throw \<open>Unknown key type\<close> and the remove does nothing.
\<close>

theorem write_remove_read_not_found:
  "fst (write' now [''session'', p, s] v b) = Inr ()
   \<and> fst (remove [''session'', p, s] (snd (write' now [''session'', p, s] v b))) = Inr ()
   \<and> fst (read [''session'', p, s]
          (snd (remove [''session'', p, s] (snd (write' now [''session'', p, s] v b)))))
     = Inl (NotFoundError (''Resource not found: '' @ join_slash [''session'', p, s]))
   \<and> (usable_session b s \<longrightarrow>
        fst (write' now [''message'', s, m] v b) = Inr ()
        \<and> fst (remove [''message'', s, m] (snd (write' now [''message'', s, m] v b))) = Inr ()
        \<and> fst (read [''message'', s, m]
              (snd (remove [''message'', s, m] (snd (write' now [''message'', s, m] v b)))))
          = Inl (NotFoundError (''Resource not found: '' @ join_slash [''message'', s, m])))
   \<and> (messageSessionCache b (Some m) = Some (Some s) \<and> usable_session b s \<longrightarrow>
        fst (write' now [''part'', m, q] v b) = Inr ()
        \<and> fst (remove [''part'', m, q] (snd (write' now [''part'', m, q] v b))) = Inr ()
        \<and> fst (read [''part'', m, q]
              (snd (remove [''part'', m, q] (snd (write' now [''part'', m, q] v b)))))
          = Inl (NotFoundError (''Resource not found: '' @ join_slash [''part'', m, q])))
   \<and> (usable_session b s \<longrightarrow>
        (let b1 = snd (write' now [''message'', s, m] v b);
             b2 = snd (remove [''session'', p, s] b1)
         in fst (write' now [''message'', s, m] v b) = Inr ()
            \<and> fst (read [''message'', s, m] b1) = Inr v
            \<and> fst (remove [''session'', p, s] b1) = Inr ()
            \<and> files b2 (dbPath b (Some s)) = None
            \<and> fst (read [''message'', s, m] b2)
                = Inl (NotFoundError
                        (''Resource not found: '' @ join_slash [''message'', s, m]))))
   \<and> (usable_session b s \<longrightarrow>
        files (snd (remove [''session'', p, s] b)) (dbPath b (Some s)) = None
        \<and> fst (read [''message'', s, m] (snd (remove [''session'', p, s] b)))
            = Inl (NotFoundError (''Resource not found: '' @ join_slash [''message'', s, m])))
   \<and> (js_index k 0 \<noteq> Some ''session'' \<and> js_index k 0 \<noteq> Some ''message''
        \<and> js_index k 0 \<noteq> Some ''part'' \<and> js_index k 0 \<noteq> Some ''session_diff'' \<longrightarrow>
        write' now k v b = (Inl (Error (''Unknown key type: '' @ template (js_index k 0))), b)
        \<and> remove k b = (Inr (), b)
        \<and> read k b = (Inl (Error (''Unknown key type: '' @ template (js_index k 0))), b))"
proof -
  have session: "fst (write' now [''session'', p, s] v b) = Inr ()
     \<and> fst (remove [''session'', p, s] (snd (write' now [''session'', p, s] v b))) = Inr ()
     \<and> fst (read [''session'', p, s]
          (snd (remove [''session'', p, s] (snd (write' now [''session'', p, s] v b)))))
       = Inl (NotFoundError (''Resource not found: '' @ join_slash [''session'', p, s]))"
    using session_round_trip [of now p s v b] session_write_remove_read [of p s now v b]
    by simp
  have message: "fst (write' now [''message'', s, m] v b) = Inr ()
        \<and> fst (remove [''message'', s, m] (snd (write' now [''message'', s, m] v b))) = Inr ()
        \<and> fst (read [''message'', s, m]
              (snd (remove [''message'', s, m] (snd (write' now [''message'', s, m] v b)))))
          = Inl (NotFoundError (''Resource not found: '' @ join_slash [''message'', s, m]))"
    if u: "usable_session b s"
    using message_round_trip [OF usable_session_creatable(3) [OF u]
        usable_session_creatable(2) [OF u], of now m v]
      message_write_remove_read [OF usable_session_creatable(3) [OF u]
        usable_session_creatable(2) [OF u], of m now v]
    by simp
  have part: "fst (write' now [''part'', m, q] v b) = Inr ()
        \<and> fst (remove [''part'', m, q] (snd (write' now [''part'', m, q] v b))) = Inr ()
        \<and> fst (read [''part'', m, q]
              (snd (remove [''part'', m, q] (snd (write' now [''part'', m, q] v b)))))
          = Inl (NotFoundError (''Resource not found: '' @ join_slash [''part'', m, q]))"
    if a: "messageSessionCache b (Some m) = Some (Some s) \<and> usable_session b s"
  proof -
    from a have c: "messageSessionCache b (Some m) = Some (Some s)" and u: "usable_session b s"
      by simp_all
    show ?thesis
      using part_round_trip [OF c usable_session_creatable(3) [OF u]
          usable_session_creatable(2) [OF u], of now q v]
        part_write_remove_read [OF c usable_session_creatable(3) [OF u]
          usable_session_creatable(2) [OF u], of q now v]
      by simp
  qed
  have scenario: "let b1 = snd (write' now [''message'', s, m] v b);
             b2 = snd (remove [''session'', p, s] b1)
         in fst (write' now [''message'', s, m] v b) = Inr ()
            \<and> fst (read [''message'', s, m] b1) = Inr v
            \<and> fst (remove [''session'', p, s] b1) = Inr ()
            \<and> files b2 (dbPath b (Some s)) = None
            \<and> fst (read [''message'', s, m] b2)
                = Inl (NotFoundError
                        (''Resource not found: '' @ join_slash [''message'', s, m]))"
    if u: "usable_session b s"
    using message_then_session_remove [OF u, of now m v p] by (simp add: Let_def)
  have cascade: "files (snd (remove [''session'', p, s] b)) (dbPath b (Some s)) = None
        \<and> fst (read [''message'', s, m] (snd (remove [''session'', p, s] b)))
            = Inl (NotFoundError (''Resource not found: '' @ join_slash [''message'', s, m]))"
    if u: "usable_session b s"
    using session_remove_cascades [OF usable_session_creatable(3) [OF u]
        usable_session_creatable(1) [OF u], of p m]
    by simp
  have unknown: "write' now k v b
          = (Inl (Error (''Unknown key type: '' @ template (js_index k 0))), b)
        \<and> remove k b = (Inr (), b)
        \<and> read k b = (Inl (Error (''Unknown key type: '' @ template (js_index k 0))), b)"
    if a: "js_index k 0 \<noteq> Some ''session'' \<and> js_index k 0 \<noteq> Some ''message''
        \<and> js_index k 0 \<noteq> Some ''part'' \<and> js_index k 0 \<noteq> Some ''session_diff''"
    using a unknown_type_throws [of k now v b] by simp
  show ?thesis
    using session message part scenario cascade unknown by blast
qed

theorem write_remove_read_not_found_witness:
  "usable_session fresh_backend ''sX'' \<and> usable_session after_message ''sX''
   \<and> usable_session after_part ''sX''
   \<and> messageSessionCache after_message (Some ''mA'') = Some (Some ''sX'')
   \<and> js_index [''project'', ''p1''] 0 = Some ''project''
   \<and> fst (read [''message'', ''sX'', ''mA''] after_message) = Inr ''info''
   \<and> files after_message ''/proj/.opencode/sessions/sX.db'' = Some 1
   \<and> files (snd (remove [''session'', ''p'', ''sX''] after_message))
        ''/proj/.opencode/sessions/sX.db'' = None
   \<and> fst (read [''message'', ''sX'', ''mA'']
          (snd (remove [''session'', ''p'', ''sX''] after_message)))
       = Inl (NotFoundError ''Resource not found: message/sX/mA'')
   \<and> fst (read [''message'', ''sX'', ''mA'']
          (snd (remove [''session'', ''p'', ''sX''] after_part)))
       = Inl (NotFoundError ''Resource not found: message/sX/mA'')
   \<and> fst (read [''part'', ''mA'', ''p0'']
          (snd (remove [''part'', ''mA'', ''p0'']
             (snd (write' 3 [''part'', ''mA'', ''p0''] ''more'' after_message)))))
       = Inl (NotFoundError ''Resource not found: part/mA/p0'')
   \<and> remove [''project'', ''p1''] fresh_backend = (Inr (), fresh_backend)"
proof -
  note u = example_usable(1) and u1 = example_usable(2) and u2 = example_usable(3)
    and c = example_cache(1) and t = example_unknown_type
  have k: "js_index [''project'', ''p1''] 0 = Some ''project''"
    by simp
  have f: "files after_message ''/proj/.opencode/sessions/sX.db'' = Some 1"
    by (simp add: after_message_value)
  have 1: "fst (read [''message'', ''sX'', ''mA''] after_message) = Inr ''info''
      \<and> files (snd (remove [''session'', ''p'', ''sX''] after_message))
           ''/proj/.opencode/sessions/sX.db'' = None
      \<and> fst (read [''message'', ''sX'', ''mA'']
             (snd (remove [''session'', ''p'', ''sX''] after_message)))
          = Inl (NotFoundError ''Resource not found: message/sX/mA'')"
    using u write_remove_read_not_found [of 1 "''p''" "''sX''" "''info''" fresh_backend "''mA''"]
    by (simp add: after_message_def [symmetric] example_dbPath Let_def)
  have 2: "fst (read [''message'', ''sX'', ''mA'']
          (snd (remove [''session'', ''p'', ''sX''] after_part)))
       = Inl (NotFoundError ''Resource not found: message/sX/mA'')"
    using u2 write_remove_read_not_found [of 1 "''p''" "''sX''" "''info''" after_part "''mA''"]
    by simp
  have 3: "fst (read [''part'', ''mA'', ''p0'']
          (snd (remove [''part'', ''mA'', ''p0'']
             (snd (write' 3 [''part'', ''mA'', ''p0''] ''more'' after_message)))))
       = Inl (NotFoundError ''Resource not found: part/mA/p0'')"
    using u1 c write_remove_read_not_found [of 3 "''p''" "''sX''" "''more''" after_message
        "''mA''" "''p0''"]
    by simp
  have 4: "remove [''project'', ''p1''] fresh_backend = (Inr (), fresh_backend)"
    using t write_remove_read_not_found [of 1 "''p''" "''sX''" "''info''" fresh_backend "''mA''"
        "''p0''" "[''project'', ''p1'']"]
    by simp
  show ?thesis
    using u u1 u2 c k f 1 2 3 4 by simp
qed

section \<open>Properties of the legacy JsonBackend\<close>

text \<open>
  Claim C10 (for every key \<open>k\<close>, \<open>JsonBackend.remove(k)\<close> leaves every other stored key
  unchanged) fails for keys with a segment \<open>..\<close>, which \<open>path.join\<close> resolves: the
  keys \<open>["a","b",".."]\<close> and \<open>["a"]\<close> differ and have the same file \<open>/data/a.json\<close>, so
  that in the tree where the first is stored the remove of the second deletes its
  record.
\<close>

theorem json_remove_deletes_dotted_key:
  "[''a'', ''b'', ''..''] \<noteq> [''a'']
   \<and> json_target ''/data'' [''a'', ''b'', ''..''] = ''/data/a.json''
   \<and> json_target ''/data'' [''a''] = ''/data/a.json''
   \<and> json_files dotted_tree (json_target ''/data'' [''a'', ''b'', ''..'']) = Some ''kept''
   \<and> json_files (snd (json_remove ''/data'' [''a''] dotted_tree))
         (json_target ''/data'' [''a'', ''b'', ''..'']) = None"
  by (simp add: json_remove_def json_target_def dotted_tree_def path_join_def
      path_normalize_def normalizeString_def normalize_step_def Let_def)

text \<open>
  Claim C10, amended: \<open>JsonBackend.remove(k)\<close> resolves successfully on every file
  tree, whether or not the file of \<open>k\<close> exists. It leaves the directories as they were
  and removes at most the one file \<open>path.join(dir, ...k) + ".json"\<close>: every other path
  holds what it held. For well-formed keys (at least one segment, no segment empty,
  containing \<open>/\<close>, or equal to \<open>.\<close> or \<open>..\<close>) different keys have different files, so that
  every well-formed key other than \<open>k\<close>, a child key \<open>k @ rest\<close> included, keeps its file
  and its record: the legacy backend's remove does not cascade.
\<close>

theorem json_remove_frame:
  "fst (json_remove dir k fs) = Inr ()
   \<and> json_dirs (snd (json_remove dir k fs)) = json_dirs fs
   \<and> json_files (snd (json_remove dir k fs))
       = (if json_target dir k \<in> json_dirs fs then json_files fs
          else (json_files fs)(json_target dir k := None))
   \<and> (\<forall>path. path \<noteq> json_target dir k \<longrightarrow>
         json_files (snd (json_remove dir k fs)) path = json_files fs path)
   \<and> (\<forall>k'. wf_key k \<and> wf_key k' \<and> k' \<noteq> k \<longrightarrow>
         json_target dir k' \<noteq> json_target dir k
         \<and> json_files (snd (json_remove dir k fs)) (json_target dir k')
             = json_files fs (json_target dir k'))"
proof (intro conjI allI impI)
  show "fst (json_remove dir k fs) = Inr ()"
    by (simp add: json_remove_def Let_def)
  show "json_dirs (snd (json_remove dir k fs)) = json_dirs fs"
    by (simp add: json_remove_def Let_def)
  show "json_files (snd (json_remove dir k fs))
       = (if json_target dir k \<in> json_dirs fs then json_files fs
          else (json_files fs)(json_target dir k := None))"
    by (simp add: json_remove_def Let_def)
next
  fix path
  assume "path \<noteq> json_target dir k"
  then show "json_files (snd (json_remove dir k fs)) path = json_files fs path"
    by (simp add: json_remove_def Let_def)
next
  fix k'
  assume "wf_key k \<and> wf_key k' \<and> k' \<noteq> k"
  then show "json_target dir k' \<noteq> json_target dir k"
    using json_target_inj [of k' k dir] by blast
next
  fix k'
  assume "wf_key k \<and> wf_key k' \<and> k' \<noteq> k"
  then have "json_target dir k' \<noteq> json_target dir k"
    using json_target_inj [of k' k dir] by blast
  then show "json_files (snd (json_remove dir k fs)) (json_target dir k')
             = json_files fs (json_target dir k')"
    by (simp add: json_remove_def Let_def)
qed

theorem json_remove_frame_witness:
  "wf_key [''session'', ''p1''] \<and> wf_key [''session'', ''p1'', ''s1'']
   \<and> [''session'', ''p1'', ''s1''] \<noteq> [''session'', ''p1'']
   \<and> ''/data/session/p1/s1.json'' \<noteq> json_target ''/data'' [''session'', ''p1'']
   \<and> json_files sample_tree (json_target ''/data'' [''session'', ''p1'']) = Some ''parent''
   \<and> json_files (snd (json_remove ''/data'' [''session'', ''p1''] sample_tree))
         (json_target ''/data'' [''session'', ''p1'']) = None
   \<and> json_files (snd (json_remove ''/data'' [''session'', ''p1''] sample_tree))
         (json_target ''/data'' [''session'', ''p1'', ''s1'']) = Some ''child''
   \<and> json_files (snd (json_remove ''/data'' [''session'', ''p1''] sample_tree))
         ''/data/session/p1/s1.json'' = Some ''child''"
proof -
  have wf: "wf_key [''session'', ''p1''] \<and> wf_key [''session'', ''p1'', ''s1'']
      \<and> [''session'', ''p1'', ''s1''] \<noteq> [''session'', ''p1'']"
    by (simp add: wf_key_def wf_segment_def)
  have t1: "json_target ''/data'' [''session'', ''p1''] = ''/data/session/p1.json''"
    by (simp add: json_target_def path_join_def path_normalize_def normalizeString_def
        normalize_step_def)
  have t2: "json_target ''/data'' [''session'', ''p1'', ''s1''] = ''/data/session/p1/s1.json''"
    by (simp add: json_target_def path_join_def path_normalize_def normalizeString_def
        normalize_step_def)
  have n: "''/data/session/p1/s1.json'' \<noteq> json_target ''/data'' [''session'', ''p1'']"
    by (simp add: t1)
  have d: "json_target ''/data'' [''session'', ''p1''] \<notin> json_dirs sample_tree"
    by (simp add: t1 sample_tree_def)
  have before: "json_files sample_tree (json_target ''/data'' [''session'', ''p1'']) = Some ''parent''"
    "json_files sample_tree (json_target ''/data'' [''session'', ''p1'', ''s1'']) = Some ''child''"
    "json_files sample_tree ''/data/session/p1/s1.json'' = Some ''child''"
    by (simp_all add: t1 t2 sample_tree_def)
  note frame = json_remove_frame [of "''/data''" "[''session'', ''p1'']" sample_tree]
  have removed: "json_files (snd (json_remove ''/data'' [''session'', ''p1''] sample_tree))
         (json_target ''/data'' [''session'', ''p1'']) = None"
    using frame [THEN conjunct2, THEN conjunct2, THEN conjunct1] d by simp
  have path: "json_files (snd (json_remove ''/data'' [''session'', ''p1''] sample_tree))
         ''/data/session/p1/s1.json'' = Some ''child''"
    using frame [THEN conjunct2, THEN conjunct2, THEN conjunct2, THEN conjunct1, rule_format,
        OF n] before(3)
    by simp
  have child: "json_files (snd (json_remove ''/data'' [''session'', ''p1''] sample_tree))
         (json_target ''/data'' [''session'', ''p1'', ''s1'']) = Some ''child''"
    using frame [THEN conjunct2, THEN conjunct2, THEN conjunct2, THEN conjunct2, rule_format,
        OF wf, THEN conjunct2] before(2)
    by simp
  show ?thesis
    using wf n before(1) removed path child by simp
qed

end
